theory Spec2Isabelle
  imports Complex_Main "HOL-Library.Multiset" "HOL-Library.Log_Nat"
begin

section \<open>Shared conventions\<close>

text \<open>
  The development embeds four modules of the agent: the suggestions queue
  (\<^verbatim>\<open>lib/dao/suggestionsQueue.ts\<close>), the proposal history
  (\<^verbatim>\<open>lib/dao/proposalHistory.ts\<close>), the allocation calculator
  (\<^verbatim>\<open>lib/dao/calculateAllocation.ts\<close>) and the two callers
  \<^verbatim>\<open>processQueuedSuggestion\<close> (\<^verbatim>\<open>scripts/agent.ts\<close>) and
  \<^verbatim>\<open>analyzeAndPropose\<close> (\<^verbatim>\<open>lib/agent/analyzeCreator.ts\<close>).

  \<^item> A point in time is the millisecond count \<^verbatim>\<open>Date.now()\<close> returns, a time
    value of JavaScript (an integer of magnitude at most \<open>8.64 * 10^15\<close>, which a
    double holds exactly). An ISO timestamp string
    (\<^verbatim>\<open>new Date(t).toISOString()\<close>) is kept as the count \<open>t\<close> it denotes;
    \<^verbatim>\<open>new Date(iso).getTime()\<close> reads the same count back.
  \<^item> A JavaScript \<^verbatim>\<open>number\<close> on which the code computes is a double: the type
    \<open>number\<close> below holds the exact value of a finite double, or an infinity,
    or \<^verbatim>\<open>NaN\<close>, and every operation rounds as IEEE 754 does (to the nearest
    double, to the even one on a tie). Numbers that are only stored and compared
    (prices, scores) are kept by their value, a rational. A \<^verbatim>\<open>bigint\<close> is an
    \<open>int\<close>.
  \<^item> A string is the list of its UTF-16 code units; the type \<open>char\<close> holds the
    code units below 256.
  \<^item> A thrown exception is a value: operations that can throw return a sum or an
    option, and state that a throw leaves behind is returned next to it.
  \<^item> What the outside world answers (the clock, the random generator, the file
    system, the subgraph, the chain, the scoring service) is an argument of
    the operation that asks.
\<close>

type_synonym time = int

subsection \<open>Doubles\<close>

datatype number = Num rat | PosInf | NegInf | NaN

text \<open>The power \<open>2^e\<close> for an integer \<open>e\<close>.\<close>

definition pow2 :: "int \<Rightarrow> rat" where
  "pow2 e = (if 0 \<le> e then 2 ^ nat e else 1 / 2 ^ nat (- e))"

text \<open>
  For \<open>x > 0\<close>, the integer \<open>k\<close> with \<open>2^k \<le> x < 2^(k+1)\<close>: with \<open>x = p / q\<close> in lowest
  terms it is the difference of the bit lengths of \<open>p\<close> and \<open>q\<close>, or one less.
\<close>

definition floorLog2 :: "rat \<Rightarrow> int" where
  "floorLog2 x =
     (let (p, q) = quotient_of x;
          k = bitlen p - bitlen q
      in if pow2 k \<le> x then k else k - 1)"

text \<open>The nearest integer, the even one of two that are equally near.\<close>

definition roundHalfEven :: "rat \<Rightarrow> int" where
  "roundHalfEven x =
     (let f = \<lfloor>x\<rfloor>; d = x - of_int f
      in if d < 1 / 2 then f else if 1 / 2 < d then f + 1 else if even f then f else f + 1)"

text \<open>
  The double nearest to \<open>x > 0\<close>. A double is \<open>m * 2^e\<close> with \<open>0 \<le> m < 2^53\<close> and
  \<open>- 1074 \<le> e \<le> 971\<close>. The exponent \<open>e\<close> chosen puts \<open>x / 2^e\<close> between \<open>2^52\<close> and
  \<open>2^53\<close> (or below, at the least exponent), and \<open>m\<close> is that quotient rounded.
  The result is infinite when \<open>m * 2^e\<close> reaches \<open>2^1024\<close>: when \<open>e\<close> is above 971, or
  is 971 with \<open>m\<close> rounded up to \<open>2^53\<close>.
\<close>

definition doubleOfPositive :: "rat \<Rightarrow> number" where
  "doubleOfPositive x =
     (let e = max (- 1074) (floorLog2 x - 52);
          m = roundHalfEven (x / pow2 e)
      in if 971 < e \<or> (e = 971 \<and> 9007199254740992 \<le> m) then PosInf
         else Num (of_int m * pow2 e))"

definition negate :: "number \<Rightarrow> number" where
  "negate x = (case x of Num a \<Rightarrow> Num (- a) | PosInf \<Rightarrow> NegInf | NegInf \<Rightarrow> PosInf | NaN \<Rightarrow> NaN)"

text \<open>
  The double a real value is rounded to: what a numeric literal denotes,
  \<^verbatim>\<open>Number(i)\<close> for a \<^verbatim>\<open>bigint\<close>, and the result of an arithmetic operation
  on doubles from its exact result. (Zero has no sign here: no operation below
  tells \<^verbatim>\<open>-0\<close> from \<^verbatim>\<open>0\<close>.)
\<close>

definition double :: "rat \<Rightarrow> number" where
  "double x =
     (if x = 0 then Num 0
      else if 0 < x then doubleOfPositive x
      else negate (doubleOfPositive (- x)))"

text \<open>\<^verbatim>\<open>x * d\<close> and \<^verbatim>\<open>x / d\<close> for a finite \<open>d > 0\<close> (\<open>d\<close> the value of a double).\<close>

definition timesPositive :: "number \<Rightarrow> rat \<Rightarrow> number" where
  "timesPositive x d =
     (case x of Num a \<Rightarrow> double (a * d) | PosInf \<Rightarrow> PosInf | NegInf \<Rightarrow> NegInf | NaN \<Rightarrow> NaN)"

definition overPositive :: "number \<Rightarrow> rat \<Rightarrow> number" where
  "overPositive x d =
     (case x of Num a \<Rightarrow> double (a / d) | PosInf \<Rightarrow> PosInf | NegInf \<Rightarrow> NegInf | NaN \<Rightarrow> NaN)"

text \<open>\<^verbatim>\<open>x <= y\<close>, false when either is \<^verbatim>\<open>NaN\<close>.\<close>

fun numLe :: "number \<Rightarrow> number \<Rightarrow> bool" where
  "numLe NaN y = False"
| "numLe x NaN = False"
| "numLe NegInf y = True"
| "numLe x PosInf = True"
| "numLe (Num a) (Num b) = (a \<le> b)"
| "numLe x y = False"

text \<open>\<^verbatim>\<open>Math.min(x, y)\<close> and \<^verbatim>\<open>Math.max(x, y)\<close>.\<close>

definition mathMin :: "number \<Rightarrow> number \<Rightarrow> number" where
  "mathMin x y = (if x = NaN \<or> y = NaN then NaN else if numLe x y then x else y)"

definition mathMax :: "number \<Rightarrow> number \<Rightarrow> number" where
  "mathMax x y = (if x = NaN \<or> y = NaN then NaN else if numLe x y then y else x)"

text \<open>\<^verbatim>\<open>BigInt(x)\<close> for a number: it throws unless \<open>x\<close> is an integer.\<close>

definition bigIntOfNumber :: "number \<Rightarrow> int option" where
  "bigIntOfNumber x =
     (case x of
        Num a \<Rightarrow> if of_int \<lfloor>a\<rfloor> = a then Some \<lfloor>a\<rfloor> else None
      | PosInf \<Rightarrow> None
      | NegInf \<Rightarrow> None
      | NaN \<Rightarrow> None)"

subsection \<open>Decimal rendering of numbers\<close>

definition digitChar :: "nat \<Rightarrow> char" where
  "digitChar d = ''0123456789'' ! (d mod 10)"

text \<open>\<^verbatim>\<open>String(n)\<close> for a non-negative integer \<open>n\<close>.\<close>

fun showNat :: "nat \<Rightarrow> string" where
  "showNat n = (if n < 10 then [digitChar n] else showNat (n div 10) @ [digitChar (n mod 10)])"

declare showNat.simps [simp del]

text \<open>\<^verbatim>\<open>String(i)\<close> for an integer \<open>i\<close>.\<close>

definition showInt :: "int \<Rightarrow> string" where
  "showInt i = (if i < 0 then ''-'' @ showNat (nat (- i)) else showNat (nat i))"

text \<open>The last \<open>f\<close> decimal digits of \<open>m\<close>, padded with zeros on the left.\<close>

primrec fracDigits :: "nat \<Rightarrow> nat \<Rightarrow> string" where
  "fracDigits 0 m = []"
| "fracDigits (Suc f) m = fracDigits f (m div 10) @ [digitChar (m mod 10)]"

text \<open>
  \<^verbatim>\<open>x.toFixed(f)\<close> for a finite double of exact value \<open>x\<close>: with \<open>n\<close> the integer
  for which \<open>n / 10^f\<close> is nearest to \<open>|x|\<close> (the larger one on a tie), the digits of
  \<open>n\<close> with a point before the last \<open>f\<close> of them, and a minus sign in front for
  negative \<open>x\<close>. (Exponent notation, which JavaScript switches to from \<open>10^21\<close>
  on, is outside what time values and clamped amounts reach.)
\<close>

definition fixedDigits :: "nat \<Rightarrow> rat \<Rightarrow> string" where
  "fixedDigits f x =
     (let n = nat \<lfloor>\<bar>x\<bar> * 10 ^ f + 1 / 2\<rfloor>
      in (if x < 0 then ''-'' else '''')
         @ showNat (n div 10 ^ f)
         @ (if f = 0 then '''' else CHR ''.'' # fracDigits f (n mod 10 ^ f)))"

definition toFixed :: "nat \<Rightarrow> number \<Rightarrow> string" where
  "toFixed f x =
     (case x of
        Num a \<Rightarrow> fixedDigits f a
      | PosInf \<Rightarrow> ''Infinity''
      | NegInf \<Rightarrow> ''-Infinity''
      | NaN \<Rightarrow> ''NaN'')"

subsection \<open>Lower case\<close>

text \<open>
  The lower-case form of a code unit below 256: the letters \<^verbatim>\<open>A\<close> to \<^verbatim>\<open>Z\<close>, and
  the capital letters of Latin-1 (192 to 222, without the multiplication sign
  215), are moved up by 32.
\<close>

definition lowerChar :: "char \<Rightarrow> char" where
  "lowerChar c =
     (let k = (of_char c :: nat)
      in if (65 \<le> k \<and> k \<le> 90) \<or> (192 \<le> k \<and> k \<le> 222 \<and> k \<noteq> 215)
         then char_of (k + 32) else c)"

text \<open>\<^verbatim>\<open>s.toLowerCase()\<close>.\<close>

definition toLowerCase :: "string \<Rightarrow> string" where
  "toLowerCase s = map lowerChar s"

section \<open>The suggestions queue\<close>

datatype status = Pending | Processing | Completed | Failed

datatype source = Manual | Agent

text \<open>
  \<^verbatim>\<open>QueuedSuggestion\<close>. An optional field is an \<open>option\<close>; \<^verbatim>\<open>id\<close> is named
  \<open>ident\<close> here.
\<close>

record QueuedSuggestion =
  ident :: string
  coinId :: string
  coinSymbol :: "string option"
  coinName :: "string option"
  creatorAddress :: "string option"
  creatorName :: "string option"
  pfpUrl :: "string option"
  currentPriceUsd :: "rat option"
  volume24hUsd :: "rat option"
  reason :: string
  confidenceScore :: rat
  suggestedAllocationUsd :: "rat option"
  source :: source
  submittedBy :: "string option"
  addedAt :: time
  status :: status
  processedAt :: "time option"
  proposalId :: "string option"
  txHash :: "string option"
  errorMessage :: "string option"

record SuggestionsQueue =
  suggestions :: "QueuedSuggestion list"
  lastUpdated :: time

text \<open>
  What is on disk at \<^verbatim>\<open>QUEUE_FILE_PATH\<close>: nothing, a file that cannot be read
  or parsed, or a stored queue.
\<close>

datatype queueFile = NoFile | Unreadable | Stored SuggestionsQueue

definition loadQueue :: "time \<Rightarrow> queueFile \<Rightarrow> SuggestionsQueue" where
  "loadQueue now file =
     (case file of
        NoFile \<Rightarrow> \<lparr>suggestions = [], lastUpdated = now\<rparr>
      | Unreadable \<Rightarrow> \<lparr>suggestions = [], lastUpdated = now\<rparr>
      | Stored q \<Rightarrow> q)"

definition saveQueue :: "time \<Rightarrow> SuggestionsQueue \<Rightarrow> queueFile" where
  "saveQueue now queue = Stored (queue\<lparr>lastUpdated := now\<rparr>)"

text \<open>
  \<^verbatim>\<open>addSuggestionToQueue\<close>. The argument carries every field but \<^verbatim>\<open>id\<close>,
  \<^verbatim>\<open>addedAt\<close> and \<^verbatim>\<open>status\<close>; the spread copies it and the three are then
  set. \<open>now\<close> is the clock and \<open>rnd\<close> is
  \<^verbatim>\<open>Math.random().toString(36).substring(7)\<close>. The result is the new record and
  the file as saved.
\<close>

definition newId :: "time \<Rightarrow> string \<Rightarrow> string" where
  "newId now rnd = ''suggestion_'' @ showInt now @ ''_'' @ rnd"

definition addSuggestionToQueue ::
    "time \<Rightarrow> string \<Rightarrow> QueuedSuggestion \<Rightarrow> queueFile \<Rightarrow> QueuedSuggestion \<times> queueFile" where
  "addSuggestionToQueue now rnd suggestion file =
     (let queue = loadQueue now file;
          newSuggestion = suggestion\<lparr>ident := newId now rnd, addedAt := now, status := Pending\<rparr>
      in (newSuggestion,
          saveQueue now (queue\<lparr>suggestions := suggestions queue @ [newSuggestion]\<rparr>)))"

definition getPendingSuggestions :: "time \<Rightarrow> queueFile \<Rightarrow> QueuedSuggestion list" where
  "getPendingSuggestions now file =
     filter (\<lambda>s. status s = Pending) (suggestions (loadQueue now file))"

definition getNextSuggestion :: "time \<Rightarrow> queueFile \<Rightarrow> QueuedSuggestion option" where
  "getNextSuggestion now file =
     (case getPendingSuggestions now file of [] \<Rightarrow> None | s # _ \<Rightarrow> Some s)"

definition getAllSuggestions :: "time \<Rightarrow> queueFile \<Rightarrow> QueuedSuggestion list" where
  "getAllSuggestions now file = suggestions (loadQueue now file)"

text \<open>The optional third argument of \<^verbatim>\<open>updateSuggestionStatus\<close>.\<close>

record metadata =
  proposalId_m :: "string option"
  txHash_m :: "string option"
  errorMessage_m :: "string option"

text \<open>
  \<^verbatim>\<open>metadata?.field\<close> used as a condition: the field is there and is not the
  empty string.
\<close>

definition truthy :: "metadata option \<Rightarrow> (metadata \<Rightarrow> string option) \<Rightarrow> string option" where
  "truthy m field =
     (case m of
        None \<Rightarrow> None
      | Some md \<Rightarrow> (case field md of None \<Rightarrow> None | Some v \<Rightarrow> if v = [] then None else Some v))"

text \<open>The assignments \<^verbatim>\<open>updateSuggestionStatus\<close> makes to the record it found.\<close>

definition applyStatus ::
    "time \<Rightarrow> status \<Rightarrow> metadata option \<Rightarrow> QueuedSuggestion \<Rightarrow> QueuedSuggestion" where
  "applyStatus now st m suggestion =
     (let s1 = suggestion\<lparr>status := st\<rparr>;
          s2 = (if st = Completed \<or> st = Failed then s1\<lparr>processedAt := Some now\<rparr> else s1);
          s3 = (case truthy m proposalId_m of None \<Rightarrow> s2 | Some v \<Rightarrow> s2\<lparr>proposalId := Some v\<rparr>);
          s4 = (case truthy m txHash_m of None \<Rightarrow> s3 | Some v \<Rightarrow> s3\<lparr>txHash := Some v\<rparr>);
          s5 = (case truthy m errorMessage_m of None \<Rightarrow> s4 | Some v \<Rightarrow> s4\<lparr>errorMessage := Some v\<rparr>)
      in s5)"

text \<open>
  The record \<^verbatim>\<open>find\<close> returns is the first with the identifier, and it is
  changed where it stands in the list.
\<close>

fun updateFirst :: "('a \<Rightarrow> bool) \<Rightarrow> ('a \<Rightarrow> 'a) \<Rightarrow> 'a list \<Rightarrow> 'a list" where
  "updateFirst P g [] = []"
| "updateFirst P g (x # xs) = (if P x then g x # xs else x # updateFirst P g xs)"

datatype queueError = SuggestionNotFound string

text \<open>
  \<^verbatim>\<open>updateSuggestionStatus\<close>: the outcome (the error thrown, or nothing) and the
  file afterwards. The throw comes before \<^verbatim>\<open>saveQueue\<close>.
\<close>

definition updateSuggestionStatus ::
    "time \<Rightarrow> string \<Rightarrow> status \<Rightarrow> metadata option \<Rightarrow> queueFile \<Rightarrow> (queueError + unit) \<times> queueFile" where
  "updateSuggestionStatus now i st m file =
     (let queue = loadQueue now file
      in case find (\<lambda>s. ident s = i) (suggestions queue) of
           None \<Rightarrow> (Inl (SuggestionNotFound i), file)
         | Some _ \<Rightarrow>
             (Inr (),
              saveQueue now
                (queue\<lparr>suggestions :=
                   updateFirst (\<lambda>s. ident s = i) (applyStatus now st m) (suggestions queue)\<rparr>)))"

text \<open>\<^verbatim>\<open>deleteSuggestion\<close>: whether a record went, and the file afterwards.\<close>

definition deleteSuggestion :: "time \<Rightarrow> string \<Rightarrow> queueFile \<Rightarrow> bool \<times> queueFile" where
  "deleteSuggestion now i file =
     (let queue = loadQueue now file;
          kept = filter (\<lambda>s. ident s \<noteq> i) (suggestions queue)
      in if length kept < length (suggestions queue)
         then (True, saveQueue now (queue\<lparr>suggestions := kept\<rparr>))
         else (False, file))"


section \<open>The proposal history\<close>

subsection \<open>Reading a proposal description\<close>

text \<open>
  The regular expression class \<^verbatim>\<open>\s\<close>, which is also what \<^verbatim>\<open>trim\<close> removes: of
  the code units below 256 these are tab, line feed, vertical tab, form feed,
  carriage return, space and the no-break space 160.
\<close>

definition isSpace :: "char \<Rightarrow> bool" where
  "isSpace c = (let k = (of_char c :: nat) in (9 \<le> k \<and> k \<le> 13) \<or> k = 32 \<or> k = 160)"

text \<open>The class \<^verbatim>\<open>[a-fA-F0-9]\<close>.\<close>

definition isHex :: "char \<Rightarrow> bool" where
  "isHex c =
     (let k = (of_char c :: nat)
      in (48 \<le> k \<and> k \<le> 57) \<or> (97 \<le> k \<and> k \<le> 102) \<or> (65 \<le> k \<and> k \<le> 70))"

text \<open>\<^verbatim>\<open>s.trim()\<close>.\<close>

definition trim :: "string \<Rightarrow> string" where
  "trim s = rev (dropWhile isSpace (rev (dropWhile isSpace s)))"

text \<open>
  \<^verbatim>\<open>s.match(re)\<close> for a pattern without anchors tries the pattern at each
  position from the left and returns the first success; \<open>m\<close> is the pattern
  tried at the start of a string.
\<close>

fun firstMatch :: "(string \<Rightarrow> string option) \<Rightarrow> string \<Rightarrow> string option" where
  "firstMatch m [] = m []"
| "firstMatch m (c # cs) = (case m (c # cs) of Some g \<Rightarrow> Some g | None \<Rightarrow> firstMatch m cs)"

text \<open>
  The patterns \<^verbatim>\<open>/Address:\s*(0x[a-fA-F0-9]{40})/\<close>,
  \<^verbatim>\<open>/Coin ID:\s*(0x[a-fA-F0-9]{40})/\<close> and \<^verbatim>\<open>/coin:\s*(0x[a-fA-F0-9]{40})/i\<close> at the
  start of \<open>s\<close>: the label (\<open>ci\<close>: ignoring case), any white space, then
  \<^verbatim>\<open>0x\<close> and forty hexadecimal digits, which are the group returned.
\<close>

definition addressAt :: "bool \<Rightarrow> string \<Rightarrow> string \<Rightarrow> string option" where
  "addressAt ci label s =
     (let n = length label;
          labelHere = (if ci then toLowerCase (take n s) = toLowerCase label else take n s = label);
          r = dropWhile isSpace (drop n s);
          prefixHere = (if ci then toLowerCase (take 2 r) = ''0x'' else take 2 r = ''0x'')
      in if labelHere \<and> prefixHere \<and> 42 \<le> length r \<and> list_all isHex (take 40 (drop 2 r))
         then Some (take 42 r) else None)"

definition extractCoinAddressFromDescription :: "string option \<Rightarrow> string option" where
  "extractCoinAddressFromDescription description =
     (case description of
        None \<Rightarrow> None
      | Some d \<Rightarrow>
          if d = [] then None
          else (case firstMatch (addressAt False ''Address:'') d of
                  Some a \<Rightarrow> Some a
                | None \<Rightarrow>
                    (case firstMatch (addressAt False ''Coin ID:'') d of
                       Some a \<Rightarrow> Some a
                     | None \<Rightarrow> firstMatch (addressAt True ''coin:'') d)))"

text \<open>
  The patterns \<^verbatim>\<open>/Symbol:\s*([^\n]+)/\<close> and \<^verbatim>\<open>/Name:\s*([^\n]+)/\<close> at the start of
  \<open>s\<close>: the label, white space as far as it goes, then the rest of the line,
  which must not be empty. When only white space follows the label up to the
  end of the text, the matcher gives white space back until the group can
  take one character that is not a line feed.
\<close>

definition restOfLineAt :: "string \<Rightarrow> string \<Rightarrow> string option" where
  "restOfLineAt label s =
     (let n = length label;
          w = takeWhile isSpace (drop n s);
          t = dropWhile isSpace (drop n s)
      in if take n s \<noteq> label then None
         else if t \<noteq> [] then Some (takeWhile (\<lambda>c. c \<noteq> CHR 0x0A) t)
         else (case dropWhile (\<lambda>c. c = CHR 0x0A) (rev w) of [] \<Rightarrow> None | c # _ \<Rightarrow> Some [c]))"

definition extractLabelled :: "string \<Rightarrow> string option \<Rightarrow> string option" where
  "extractLabelled label description =
     (case description of
        None \<Rightarrow> None
      | Some d \<Rightarrow>
          if d = [] then None
          else (case firstMatch (restOfLineAt label) d of
                  None \<Rightarrow> None
                | Some g \<Rightarrow> if g \<noteq> [] \<and> g \<noteq> ''N/A'' then Some (trim g) else None))"

definition extractCoinSymbolFromDescription :: "string option \<Rightarrow> string option" where
  "extractCoinSymbolFromDescription description = extractLabelled ''Symbol:'' description"

definition extractCoinNameFromDescription :: "string option \<Rightarrow> string option" where
  "extractCoinNameFromDescription description = extractLabelled ''Name:'' description"

subsection \<open>The subgraph and its answer\<close>

text \<open>
  \<^verbatim>\<open>SubgraphProposal\<close>, with the fields the code reads outside log lines.
  \<open>timeCreated\<close> is \<^verbatim>\<open>parseInt(proposal.timeCreated)\<close> (\<open>None\<close>: \<^verbatim>\<open>NaN\<close>) and
  \<open>snapshotBlockNumber\<close> is \<^verbatim>\<open>BigInt(proposal.snapshotBlockNumber)\<close> (\<open>None\<close>: the
  conversion throws).
\<close>

record SubgraphProposal =
  proposalId_p :: string
  description :: "string option"
  timeCreated :: "int option"
  transactionHash :: "string option"
  snapshotBlockNumber :: "int option"

text \<open>
  The parsed body of an answer: whether \<^verbatim>\<open>result.errors\<close> is truthy, and
  \<^verbatim>\<open>result.data?.proposals\<close> when it is there.
\<close>

record payload =
  errors :: bool
  proposals :: "SubgraphProposal list option"

text \<open>
  What \<^verbatim>\<open>fetch\<close> and \<^verbatim>\<open>response.json()\<close> give: the request is rejected (a
  network error), the status is not ok, the body is not JSON, or a body.
\<close>

datatype response = Rejected | NotOk | NotJson | Body payload

text \<open>
  The index behind the subgraph holds the proposals of the DAO, newest first
  (\<^verbatim>\<open>orderBy: timeCreated, orderDirection: desc\<close>); a query with \<^verbatim>\<open>first: n\<close> is
  answered with the first \<open>n\<close> of them.
\<close>

definition subgraphAnswer :: "SubgraphProposal list \<Rightarrow> nat \<Rightarrow> response" where
  "subgraphAnswer index n = Body \<lparr>errors = False, proposals = Some (take n index)\<rparr>"

subsection \<open>History entries\<close>

record ProposalHistoryEntry =
  coinAddress :: string
  coinSymbol_h :: "string option"
  coinName_h :: "string option"
  proposalId_h :: string
  submittedAt :: time
  txHash_h :: "string option"
  blockNumber :: int

text \<open>\<^verbatim>\<open>new Date(t)\<close> is a valid date, so that \<^verbatim>\<open>toISOString\<close> does not throw.\<close>

definition validDate :: "time \<Rightarrow> bool" where
  "validDate t = (\<bar>t\<bar> \<le> 8640000000000000)"

definition historyEntry :: "SubgraphProposal \<Rightarrow> string \<Rightarrow> time \<Rightarrow> int \<Rightarrow> ProposalHistoryEntry" where
  "historyEntry proposal a t b =
     \<lparr>coinAddress = a,
      coinSymbol_h = extractCoinSymbolFromDescription (description proposal),
      coinName_h = extractCoinNameFromDescription (description proposal),
      proposalId_h = proposalId_p proposal,
      submittedAt = t,
      txHash_h = transactionHash proposal,
      blockNumber = b\<rparr>"

text \<open>
  The loop of \<^verbatim>\<open>getRecentProposals\<close> over the proposals received. \<open>None\<close>: an
  exception left the loop (an invalid date or block number in an entry that
  was to be pushed). A \<^verbatim>\<open>NaN\<close> creation time compares false with the cutoff, so
  the loop goes on to the entry.
\<close>

fun scanProposals :: "time \<Rightarrow> SubgraphProposal list \<Rightarrow> ProposalHistoryEntry list option" where
  "scanProposals cutoffTime [] = Some []"
| "scanProposals cutoffTime (proposal # rest) =
     (case timeCreated proposal of
        None \<Rightarrow>
          (case extractCoinAddressFromDescription (description proposal) of
             None \<Rightarrow> scanProposals cutoffTime rest
           | Some a \<Rightarrow> None)
      | Some seconds \<Rightarrow>
          if seconds * 1000 < cutoffTime then Some []
          else
            (case extractCoinAddressFromDescription (description proposal) of
               None \<Rightarrow> scanProposals cutoffTime rest
             | Some a \<Rightarrow>
                 if \<not> validDate (seconds * 1000) then None
                 else
                   (case snapshotBlockNumber proposal of
                      None \<Rightarrow> None
                    | Some b \<Rightarrow>
                        map_option ((#) (historyEntry proposal a (seconds * 1000) b))
                          (scanProposals cutoffTime rest))))"


text \<open>
  \<^verbatim>\<open>getRecentProposals\<close>. \<open>fetch\<close> maps the \<^verbatim>\<open>first\<close> variable of the query to the
  answer received; every failure inside \<^verbatim>\<open>try\<close> ends in the empty list.
\<close>

definition getRecentProposals :: "(nat \<Rightarrow> response) \<Rightarrow> time \<Rightarrow> int \<Rightarrow> ProposalHistoryEntry list" where
  "getRecentProposals fetch now windowMs =
     (case fetch 100 of
        Rejected \<Rightarrow> []
      | NotOk \<Rightarrow> []
      | NotJson \<Rightarrow> []
      | Body result \<Rightarrow>
          if errors result then []
          else
            (let allProposals = (case proposals result of None \<Rightarrow> [] | Some ps \<Rightarrow> ps);
                 cutoffTime = now - windowMs
             in case scanProposals cutoffTime allProposals of
                  None \<Rightarrow> []
                | Some recentProposals \<Rightarrow> recentProposals))"

definition sameAddress :: "string \<Rightarrow> ProposalHistoryEntry \<Rightarrow> bool" where
  "sameAddress coinAddr p = (toLowerCase (coinAddress p) = toLowerCase coinAddr)"

definition wasRecentlyProposed ::
    "(nat \<Rightarrow> response) \<Rightarrow> time \<Rightarrow> string \<Rightarrow> int \<Rightarrow> ProposalHistoryEntry option" where
  "wasRecentlyProposed fetch now coinAddr windowMs =
     find (sameAddress coinAddr) (getRecentProposals fetch now windowMs)"

record excludedCoin =
  coinAddress_x :: string
  reason_x :: string
  proposalId_x :: string
  hoursAgo :: number

text \<open>
  \<^verbatim>\<open>(now - submittedAt) / (60 * 60 * 1000)\<close>: the difference of two time values
  as a double, divided as doubles are.
\<close>

definition hoursBetween :: "time \<Rightarrow> time \<Rightarrow> number" where
  "hoursBetween now submitted = overPositive (double (of_int (now - submitted))) (60 * 60 * 1000)"

text \<open>The loop of \<^verbatim>\<open>filterRecentlyProposedCoins\<close>: the two lists it fills.\<close>

fun partitionCoins ::
    "ProposalHistoryEntry list \<Rightarrow> time \<Rightarrow> string list \<Rightarrow> string list \<times> excludedCoin list" where
  "partitionCoins history now [] = ([], [])"
| "partitionCoins history now (coinAddr # rest) =
     (let (allowed, excluded) = partitionCoins history now rest
      in case find (sameAddress coinAddr) history of
           Some proposal \<Rightarrow>
             (allowed,
              \<lparr>coinAddress_x = coinAddr,
               reason_x = ''Already proposed '' @ toFixed 1 (hoursBetween now (submittedAt proposal))
                          @ ''h ago'',
               proposalId_x = proposalId_h proposal,
               hoursAgo = hoursBetween now (submittedAt proposal)\<rparr> # excluded)
         | None \<Rightarrow> (coinAddr # allowed, excluded))"

text \<open>
  \<^verbatim>\<open>filterRecentlyProposedCoins\<close>. \<open>fetchedAt\<close> is the clock inside
  \<^verbatim>\<open>getRecentProposals\<close>, \<open>now\<close> the clock read after it returned.
\<close>

definition filterRecentlyProposedCoins ::
    "(nat \<Rightarrow> response) \<Rightarrow> time \<Rightarrow> time \<Rightarrow> string list \<Rightarrow> int \<Rightarrow> string list \<times> excludedCoin list" where
  "filterRecentlyProposedCoins fetch fetchedAt now coinAddresses windowMs =
     partitionCoins (getRecentProposals fetch fetchedAt windowMs) now coinAddresses"

section \<open>The allocation calculator\<close>

text \<open>
  One proposal as \<^verbatim>\<open>getTotalActiveProposalValue\<close> sees it: the state the
  governor contract reports (\<open>None\<close>: the read throws), and the amount in wei
  read from the description,
  \<^verbatim>\<open>BigInt(Math.floor(parseFloat(amountMatch[1]) * 1e18))\<close> (\<open>None\<close>: the pattern
  \<^verbatim>\<open>Amount: X ETH\<close> is not there, or the conversion throws).
\<close>

record activeProposal =
  state :: "nat option"
  amountWei :: "int option"

datatype proposalsReply = RequestFails | ReplyNotOk | Reply "activeProposal list"

text \<open>
  What the calculator asks of its surroundings: the environment variable, the
  balance of the treasury (\<open>None\<close>: the query throws) and the proposals.
\<close>

record chain =
  DAO_TREASURY_ADDRESS :: "string option"
  getTreasuryBalance :: "int option"
  proposalsReply :: proposalsReply

text \<open>The body of the loop over the proposals: the new running total.\<close>

definition addActiveValue :: "activeProposal \<Rightarrow> int \<Rightarrow> int" where
  "addActiveValue proposal totalValue =
     (case state proposal of
        None \<Rightarrow> totalValue
      | Some st \<Rightarrow>
          if st \<in> set [0, 1, 4, 5]
          then (case amountWei proposal of None \<Rightarrow> totalValue | Some weiAmount \<Rightarrow> totalValue + weiAmount)
          else totalValue)"

definition getTotalActiveProposalValue :: "chain \<Rightarrow> int" where
  "getTotalActiveProposalValue c =
     (case proposalsReply c of
        RequestFails \<Rightarrow> 0
      | ReplyNotOk \<Rightarrow> 0
      | Reply ps \<Rightarrow> fold addActiveValue ps 0)"

text \<open>Division of \<^verbatim>\<open>bigint\<close> values rounds towards zero.\<close>

definition bigIntDiv :: "int \<Rightarrow> int \<Rightarrow> int" where
  "bigIntDiv a b = sgn a * sgn b * (\<bar>a\<bar> div \<bar>b\<bar>)"

text \<open>
  The bounds as decimal values; the constants of the code are the doubles the
  literals \<^verbatim>\<open>0.0001\<close> and \<^verbatim>\<open>0.1\<close> denote.
\<close>

definition minAllocation :: rat where
  "minAllocation = 1 / 10000"

definition maxAllocation :: rat where
  "maxAllocation = 1 / 10"

text \<open>
  \<^verbatim>\<open>calculateProposalAllocation\<close>. The percentage is given by the value of the
  literal or double passed. Every throw inside \<^verbatim>\<open>try\<close> (the balance query, the
  conversion of the product \<^verbatim>\<open>allocationPercent * 100\<close>, a double, to a \<^verbatim>\<open>bigint\<close>)
  ends in the default string.
\<close>

definition calculateProposalAllocation :: "rat \<Rightarrow> chain \<Rightarrow> string" where
  "calculateProposalAllocation allocationPercent c =
     (if DAO_TREASURY_ADDRESS c = None \<or> DAO_TREASURY_ADDRESS c = Some [] then ''0.01''
      else
        (case getTreasuryBalance c of
           None \<Rightarrow> ''0.01''
         | Some treasuryBalance \<Rightarrow>
             (let activeProposalValue = getTotalActiveProposalValue c;
                  availableFunds = treasuryBalance - activeProposalValue
              in case bigIntOfNumber (timesPositive (double allocationPercent) 100) of
                   None \<Rightarrow> ''0.01''
                 | Some percentTimes100 \<Rightarrow>
                     (let allocationWei = bigIntDiv (availableFunds * percentTimes100) 10000;
                          allocationEth = overPositive (double (of_int allocationWei)) (10 ^ 18);
                          finalAllocation =
                            mathMax (double minAllocation)
                              (mathMin (double maxAllocation) allocationEth)
                      in toFixed 4 finalAllocation))))"

text \<open>
  The number a decimal numeral denotes (digits, and after an optional point
  more digits), as the consumer of the amount reads it. It is used to state
  bounds on the string returned.
\<close>

definition digitValue :: "char \<Rightarrow> nat option" where
  "digitValue c =
     (let k = (of_char c :: nat) in if 48 \<le> k \<and> k \<le> 57 then Some (k - 48) else None)"

fun natOfDigits :: "nat \<Rightarrow> string \<Rightarrow> nat option" where
  "natOfDigits acc [] = Some acc"
| "natOfDigits acc (c # cs) =
     (case digitValue c of None \<Rightarrow> None | Some d \<Rightarrow> natOfDigits (acc * 10 + d) cs)"

definition decimalValue :: "string \<Rightarrow> rat option" where
  "decimalValue s =
     (let whole = takeWhile (\<lambda>c. c \<noteq> CHR ''.'') s;
          rest = dropWhile (\<lambda>c. c \<noteq> CHR ''.'') s
      in if whole = [] then None
         else (case natOfDigits 0 whole of
                 None \<Rightarrow> None
               | Some i \<Rightarrow>
                   (case rest of
                      [] \<Rightarrow> Some (of_nat i)
                    | _ # fraction \<Rightarrow>
                        if fraction = [] then None
                        else (case natOfDigits 0 fraction of
                                None \<Rightarrow> None
                              | Some k \<Rightarrow> Some (of_nat i + of_nat k / 10 ^ length fraction)))))"

section \<open>Processing a queued suggestion\<close>

text \<open>An error in flight: one of the queue, or one with the given message.\<close>

datatype thrown = QueueError queueError | Error string

definition message :: "thrown \<Rightarrow> string" where
  "message e =
     (case e of
        QueueError (SuggestionNotFound i) \<Rightarrow> ''Suggestion not found: '' @ i
      | Error m \<Rightarrow> m)"

text \<open>
  \<^verbatim>\<open>processQueuedSuggestion\<close>. \<open>propose\<close> stands for \<^verbatim>\<open>createBuyCoinProposal\<close>
  followed by \<^verbatim>\<open>submitProposalToGovernor\<close>, given the amount: the error one of
  them throws, or none. \<open>t1\<close> is the clock when the record is marked, \<open>t2\<close> when
  the outcome is written. The result is the error the function throws, or
  none, and the file afterwards.
\<close>

definition processQueuedSuggestion ::
    "time \<Rightarrow> time \<Rightarrow> chain \<Rightarrow> (string \<Rightarrow> thrown option) \<Rightarrow> QueuedSuggestion \<Rightarrow> queueFile
       \<Rightarrow> (thrown + unit) \<times> queueFile" where
  "processQueuedSuggestion t1 t2 c propose suggestion file =
     (let (marked, file1) = updateSuggestionStatus t1 (ident suggestion) Processing None file;
          attempt =
            (case marked of
               Inl e \<Rightarrow> Some (QueueError e)
             | Inr _ \<Rightarrow> propose (calculateProposalAllocation 1 c))
      in case attempt of
           None \<Rightarrow> (Inr (), snd (deleteSuggestion t2 (ident suggestion) file1))
         | Some err \<Rightarrow>
             (let (recorded, file2) =
                    updateSuggestionStatus t2 (ident suggestion) Failed
                      (Some \<lparr>proposalId_m = None, txHash_m = None,
                             errorMessage_m = Some (message err)\<rparr>) file1
              in case recorded of
                   Inl e \<Rightarrow> (Inl (QueueError e), file2)
                 | Inr _ \<Rightarrow> (Inl err, file2)))"

section \<open>The analysis gate\<close>

record Profile =
  address :: string
  displayName :: string
  pfpUrl_pr :: "string option"

record CoinInfo =
  coinId_c :: string
  address_c :: string
  creatorAddress_c :: string
  symbol_c :: "string option"
  name_c :: "string option"
  currentPriceUsd_c :: "rat option"
  volume24hUsd_c :: "rat option"

record DaoCoinHolding =
  coinId_d :: string
  balanceUsd :: "rat option"

text \<open>The object \<^verbatim>\<open>buildAnalysisContext\<close> serialises for the scoring service.\<close>

record analysisContext =
  username_x :: string
  coinAddress_ctx :: string
  symbol_x :: string
  name_x :: string
  currentPriceUsd_x :: "rat option"
  volume24hUsd_x :: "rat option"
  alreadyHeld_x :: bool
  currentHoldingUsd :: rat

record AIAnalysisResponse =
  reason_ai :: string
  confidenceScore_ai :: rat
  suggestedAllocationUsd_ai :: "rat option"

text \<open>
  The surroundings of the gate. Each external capability is a function from
  what it is asked to the error message it throws or the value it returns:
  \<open>lookupProfile\<close> is the search part of \<^verbatim>\<open>resolveCreatorProfile\<close> (for a name
  that is not an address), \<open>chatCompletion\<close> is the scoring service with the
  parsing and validation of its answer. The clock is read at \<open>historyAt\<close> inside
  the history query, at \<open>duplicateAt\<close> when a duplicate is reported and at
  \<open>queuedAt\<close> by the queue; \<open>random\<close> is the suffix of the identifier.
\<close>

record world =
  DAO_TREASURY_ADDRESS_w :: "string option"
  OPENAI_API_KEY :: "string option"
  ZORA_API_KEY :: "string option"
  lookupProfile :: "string \<Rightarrow> string + Profile"
  getCoinInfo :: "string \<Rightarrow> string + CoinInfo"
  fetch :: "nat \<Rightarrow> response"
  getDaoCoinHoldings :: "string \<Rightarrow> string + DaoCoinHolding list"
  chatCompletion :: "analysisContext \<Rightarrow> string + AIAnalysisResponse"
  historyAt :: time
  duplicateAt :: time
  queuedAt :: time
  random :: string


datatype submitted = NotSubmitted | Submitted | PendingInQueue

















section \<open>Sequences of operations and concrete inputs\<close>

text \<open>
  A run of enqueue operations, each with its clock, its random suffix and its
  candidate: the records returned, in order, and the file afterwards.
\<close>

fun enqueueAll ::
    "(time \<times> string \<times> QueuedSuggestion) list \<Rightarrow> queueFile \<Rightarrow> QueuedSuggestion list \<times> queueFile" where
  "enqueueAll [] file = ([], file)"
| "enqueueAll ((now, rnd, suggestion) # ops) file =
     (let (added, file1) = addSuggestionToQueue now rnd suggestion file;
          (others, file2) = enqueueAll ops file1
      in (added # others, file2))"

definition candidate :: QueuedSuggestion where
  "candidate =
     \<lparr>ident = [], coinId = ''0xc1'', coinSymbol = Some ''ONE'', coinName = None,
      creatorAddress = None, creatorName = None, pfpUrl = None,
      currentPriceUsd = None, volume24hUsd = None,
      reason = ''promising'', confidenceScore = 1 / 2, suggestedAllocationUsd = None,
      source = Manual, submittedBy = None, addedAt = 0, status = Pending,
      processedAt = None, proposalId = None, txHash = None, errorMessage = None\<rparr>"

text \<open>A store with one pending record, \<^verbatim>\<open>s1\<close>.\<close>

definition store1 :: queueFile where
  "store1 = Stored \<lparr>suggestions = [candidate\<lparr>ident := ''s1''\<rparr>], lastUpdated = 0\<rparr>"

definition boom :: "metadata option" where
  "boom = Some \<lparr>proposalId_m = None, txHash_m = None, errorMessage_m = Some ''boom''\<rparr>"

text \<open>
  The record of \<open>store1\<close> fails at time 10, is taken up again at time 20 and
  fails again at time 30.
\<close>

definition failedOnce :: queueFile where
  "failedOnce = snd (updateSuggestionStatus 10 ''s1'' Failed boom store1)"

definition retried :: queueFile where
  "retried = snd (updateSuggestionStatus 20 ''s1'' Processing None failedOnce)"

definition failedTwice :: queueFile where
  "failedTwice = snd (updateSuggestionStatus 30 ''s1'' Failed boom retried)"

text \<open>
  A chain where the treasury holds nothing and one proposal in state 1
  (active) commits one ether.
\<close>

definition chain1 :: chain where
  "chain1 =
     \<lparr>DAO_TREASURY_ADDRESS = Some ''0xT'',
      getTreasuryBalance = Some 0,
      proposalsReply = Reply [\<lparr>state = Some 1, amountWei = Some 1000000000000000000\<rparr>]\<rparr>"

text \<open>
  Two proposals created at second 1000, each naming a coin, and the address
  of the first coin in capitals.
\<close>

definition proposalA :: SubgraphProposal where
  "proposalA =
     \<lparr>proposalId_p = ''0xp1'',
      description = Some ''Address: 0x50f88fe97f72cd3e75b9eb4f747f59bceba80d59'',
      timeCreated = Some 1000,
      transactionHash = Some ''0xt1'',
      snapshotBlockNumber = Some 7\<rparr>"

definition proposalB :: SubgraphProposal where
  "proposalB =
     \<lparr>proposalId_p = ''0xp2'',
      description = Some ''Address: 0x0000000000000000000000000000000000000002'',
      timeCreated = Some 1000,
      transactionHash = Some ''0xt2'',
      snapshotBlockNumber = Some 8\<rparr>"

definition coinA :: string where
  "coinA = ''0x50F88FE97F72CD3E75B9EB4F747F59BCEBA80D59''"

definition entryA :: ProposalHistoryEntry where
  "entryA =
     \<lparr>coinAddress = ''0x50f88fe97f72cd3e75b9eb4f747f59bceba80d59'',
      coinSymbol_h = None,
      coinName_h = None,
      proposalId_h = ''0xp1'',
      submittedAt = 1000000,
      txHash_h = Some ''0xt1'',
      blockNumber = 7\<rparr>"



section \<open>Properties of the suggestions queue\<close>

lemma find_None_ident: "find (\<lambda>s. ident s = i) xs = None \<longleftrightarrow> i \<notin> ident ` set xs"
  by (induction xs) auto

lemma applyStatus_ident [simp]: "ident (applyStatus now st m s) = ident s"
  by (simp add: applyStatus_def Let_def split: option.splits)

lemma applyStatus_status [simp]: "status (applyStatus now st m s) = st"
  by (simp add: applyStatus_def Let_def split: option.splits)

lemma applyStatus_processedAt:
  "processedAt (applyStatus now st m s)
     = (if st = Completed \<or> st = Failed then Some now else processedAt s)"
  by (simp add: applyStatus_def Let_def split: option.splits)

lemma applyStatus_errorMessage:
  "msg \<noteq> [] \<Longrightarrow>
   errorMessage (applyStatus now st (Some \<lparr>proposalId_m = a, txHash_m = b, errorMessage_m = Some msg\<rparr>) s)
     = Some msg"
  by (simp add: applyStatus_def Let_def truthy_def split: option.splits)

lemma find_updateFirst:
  "(\<And>x. P (g x) = P x) \<Longrightarrow> find P (updateFirst P g xs) = map_option g (find P xs)"
  by (induction xs) auto

lemma getAll_after_update:
  "find (\<lambda>s. ident s = i) (getAllSuggestions t file) = Some s \<Longrightarrow>
   fst (updateSuggestionStatus now i st m file) = Inr ()
   \<and> find (\<lambda>s. ident s = i) (getAllSuggestions t' (snd (updateSuggestionStatus now i st m file)))
       = Some (applyStatus now st m s)"
  by (cases "file")
     (simp_all add: updateSuggestionStatus_def getAllSuggestions_def loadQueue_def saveQueue_def
        Let_def find_updateFirst)

lemma filter_ident_shorter:
  "i \<in> ident ` set xs \<Longrightarrow> length (filter (\<lambda>s. ident s \<noteq> i) xs) < length xs"
  using length_filter_less [of _ xs "\<lambda>s. ident s \<noteq> i"] by auto

lemma getAll_after_delete:
  "i \<notin> ident ` set (getAllSuggestions t' (snd (deleteSuggestion now i file)))"
proof (cases "i \<in> ident ` set (suggestions (loadQueue now file))")
  case True
  then show ?thesis
    by (auto simp add: deleteSuggestion_def getAllSuggestions_def loadQueue_def saveQueue_def
        Let_def filter_ident_shorter)
next
  case False
  then have "filter (\<lambda>s. ident s \<noteq> i) (suggestions (loadQueue now file))
               = suggestions (loadQueue now file)"
    by (auto intro: filter_True)
  with False show ?thesis
    by (cases "file")
       (simp_all add: deleteSuggestion_def getAllSuggestions_def loadQueue_def Let_def)
qed

lemma find_Some_ident:
  "i \<in> ident ` set xs \<Longrightarrow> \<exists>s. find (\<lambda>s. ident s = i) xs = Some s"
  using find_None_ident [of i xs] by (cases "find (\<lambda>s. ident s = i) xs") auto

text \<open>
  C7: \<^verbatim>\<open>updateSuggestionStatus\<close> throws exactly when no record of the store has
  the identifier; the error is then the not-found error and the file is what
  it was. When a record has the identifier the call returns normally for every
  status, and the first record with the identifier has the status asked for.
\<close>

theorem updateSuggestionStatus_not_found_iff:
  "(\<exists>e. fst (updateSuggestionStatus now i st m file) = Inl e)
     = (i \<notin> ident ` set (getAllSuggestions now file))
   \<and> (i \<notin> ident ` set (getAllSuggestions now file) \<longrightarrow>
        updateSuggestionStatus now i st m file = (Inl (SuggestionNotFound i), file))
   \<and> (i \<in> ident ` set (getAllSuggestions now file) \<longrightarrow>
        fst (updateSuggestionStatus now i st m file) = Inr ()
        \<and> (\<exists>s. find (\<lambda>s. ident s = i)
                  (getAllSuggestions now (snd (updateSuggestionStatus now i st m file))) = Some s
              \<and> status s = st))"
proof (cases "i \<in> ident ` set (getAllSuggestions now file)")
  case True
  then obtain s where "find (\<lambda>s. ident s = i) (getAllSuggestions now file) = Some s"
    using find_Some_ident by blast
  from getAll_after_update [OF this, of now st m now] True show ?thesis
    by simp
next
  case False
  then have "find (\<lambda>s. ident s = i) (suggestions (loadQueue now file)) = None"
    by (simp add: find_None_ident getAllSuggestions_def)
  with False show ?thesis
    by (simp add: updateSuggestionStatus_def Let_def)
qed

text \<open>
  The store \<open>store1\<close> holds \<^verbatim>\<open>s1\<close> and does not hold \<^verbatim>\<open>zz\<close>: one call on
  each side.
\<close>

theorem updateSuggestionStatus_not_found_iff_witness:
  "''s1'' \<in> ident ` set (getAllSuggestions 5 store1)
   \<and> fst (updateSuggestionStatus 5 ''s1'' Processing None store1) = Inr ()
   \<and> ''zz'' \<notin> ident ` set (getAllSuggestions 5 store1)
   \<and> updateSuggestionStatus 5 ''zz'' Processing None store1
        = (Inl (SuggestionNotFound ''zz''), store1)"
  using updateSuggestionStatus_not_found_iff [of 5 "''s1''" Processing None store1]
        updateSuggestionStatus_not_found_iff [of 5 "''zz''" Processing None store1]
  by (simp add: getAllSuggestions_def loadQueue_def store1_def candidate_def)

subsection \<open>Completion, failure and the completion time\<close>

lemma getAll_present_update:
  assumes "i \<in> ident ` set (getAllSuggestions t file)"
  obtains s where "find (\<lambda>s. ident s = i) (getAllSuggestions t file) = Some s"
    and "fst (updateSuggestionStatus now i st m file) = Inr ()"
    and "find (\<lambda>s. ident s = i) (getAllSuggestions t' (snd (updateSuggestionStatus now i st m file)))
           = Some (applyStatus now st m s)"
proof -
  from assms obtain s where s: "find (\<lambda>s. ident s = i) (getAllSuggestions t file) = Some s"
    using find_Some_ident by blast
  from getAll_after_update [OF s, of now st m t'] s that show thesis
    by blast
qed

lemma process_success:
  assumes present: "ident suggestion \<in> ident ` set (getAllSuggestions t file)"
    and ok: "propose (calculateProposalAllocation 1 c) = None"
  shows "fst (processQueuedSuggestion t1 t2 c propose suggestion file) = Inr ()
    \<and> ident suggestion
        \<notin> ident ` set (getAllSuggestions t' (snd (processQueuedSuggestion t1 t2 c propose suggestion file)))"
proof -
  obtain r f1 where upd: "updateSuggestionStatus t1 (ident suggestion) Processing None file = (r, f1)"
    by (cases "updateSuggestionStatus t1 (ident suggestion) Processing None file")
  from present obtain s where "fst (updateSuggestionStatus t1 (ident suggestion) Processing None file) = Inr ()"
    by (rule getAll_present_update)
  with upd have r: "r = Inr ()" by simp
  show ?thesis
    using getAll_after_delete [of "ident suggestion" t' t2 f1]
    by (simp add: processQueuedSuggestion_def upd r ok)
qed

lemma process_failure:
  assumes present: "ident suggestion \<in> ident ` set (getAllSuggestions t file)"
    and err: "propose (calculateProposalAllocation 1 c) = Some (Error msg)"
    and msg: "msg \<noteq> []"
  shows "fst (processQueuedSuggestion t1 t2 c propose suggestion file) = Inl (Error msg)
    \<and> (\<exists>s. find (\<lambda>s. ident s = ident suggestion)
              (getAllSuggestions t' (snd (processQueuedSuggestion t1 t2 c propose suggestion file)))
            = Some s
          \<and> status s = Failed \<and> errorMessage s = Some msg)"
proof -
  let ?i = "ident suggestion"
  obtain r f1 where upd: "updateSuggestionStatus t1 ?i Processing None file = (r, f1)"
    by (cases "updateSuggestionStatus t1 ?i Processing None file")
  from present obtain s where
      r1: "fst (updateSuggestionStatus t1 ?i Processing None file) = Inr ()"
    and s1: "find (\<lambda>s. ident s = ?i) (getAllSuggestions t2 (snd (updateSuggestionStatus t1 ?i Processing None file)))
           = Some (applyStatus t1 Processing None s)"
    by (rule getAll_present_update)
  from upd r1 have r: "r = Inr ()" by simp
  from upd s1 have s1': "find (\<lambda>s. ident s = ?i) (getAllSuggestions t2 f1)
           = Some (applyStatus t1 Processing None s)" by simp
  let ?md = "Some \<lparr>proposalId_m = None, txHash_m = None, errorMessage_m = Some msg\<rparr>"
  obtain r2 f2 where upd2: "updateSuggestionStatus t2 ?i Failed ?md f1 = (r2, f2)"
    by (cases "updateSuggestionStatus t2 ?i Failed ?md f1")
  from getAll_after_update [OF s1', of t2 Failed ?md t'] upd2
  have r2: "r2 = Inr ()"
    and s2: "find (\<lambda>s. ident s = ?i) (getAllSuggestions t' f2)
       = Some (applyStatus t2 Failed ?md (applyStatus t1 Processing None s))"
    by simp_all
  show ?thesis
    using msg
    by (simp add: processQueuedSuggestion_def upd r err message_def upd2 r2 s2
        applyStatus_errorMessage)
qed

text \<open>
  C1 (as amended): for an identifier in the store, \<^verbatim>\<open>updateSuggestionStatus\<close>
  with \<^verbatim>\<open>completed\<close> keeps the record, now with that status; the record goes
  with \<^verbatim>\<open>deleteSuggestion\<close>, which is what \<^verbatim>\<open>processQueuedSuggestion\<close> calls
  when the submission succeeds. With \<^verbatim>\<open>failed\<close> and a non-empty error message
  the record stays, with that status and that message, and so it does when
  \<^verbatim>\<open>processQueuedSuggestion\<close> meets an error with a non-empty message.
\<close>

theorem completed_kept_deleted_removed_failed_kept:
  assumes "i \<in> ident ` set (getAllSuggestions t f)"
    and "msg \<noteq> []"
  shows "(\<exists>s. find (\<lambda>s. ident s = i)
               (getAllSuggestions t' (snd (updateSuggestionStatus now i Completed m f))) = Some s
            \<and> status s = Completed)
    \<and> i \<notin> ident ` set (getAllSuggestions t' (snd (deleteSuggestion now i f)))
    \<and> (\<exists>s. find (\<lambda>s. ident s = i)
               (getAllSuggestions t'
                  (snd (updateSuggestionStatus now i Failed
                          (Some \<lparr>proposalId_m = a, txHash_m = b, errorMessage_m = Some msg\<rparr>) f)))
             = Some s
            \<and> status s = Failed \<and> errorMessage s = Some msg)
    \<and> (ident suggestion = i \<and> propose (calculateProposalAllocation 1 c) = None \<longrightarrow>
          fst (processQueuedSuggestion now t2 c propose suggestion f) = Inr ()
          \<and> i \<notin> ident ` set (getAllSuggestions t'
                   (snd (processQueuedSuggestion now t2 c propose suggestion f))))
    \<and> (ident suggestion = i \<and> propose (calculateProposalAllocation 1 c) = Some (Error msg) \<longrightarrow>
          fst (processQueuedSuggestion now t2 c propose suggestion f) = Inl (Error msg)
          \<and> (\<exists>s. find (\<lambda>s. ident s = i)
                    (getAllSuggestions t'
                       (snd (processQueuedSuggestion now t2 c propose suggestion f))) = Some s
                \<and> status s = Failed \<and> errorMessage s = Some msg))"
proof (intro conjI impI)
  show "\<exists>s. find (\<lambda>s. ident s = i)
               (getAllSuggestions t' (snd (updateSuggestionStatus now i Completed m f))) = Some s
            \<and> status s = Completed"
    using assms(1) by (rule getAll_present_update [where now = now and st = Completed and m = m and t' = t']) simp
  show "i \<notin> ident ` set (getAllSuggestions t' (snd (deleteSuggestion now i f)))"
    by (rule getAll_after_delete)
  show "\<exists>s. find (\<lambda>s. ident s = i)
               (getAllSuggestions t'
                  (snd (updateSuggestionStatus now i Failed
                          (Some \<lparr>proposalId_m = a, txHash_m = b, errorMessage_m = Some msg\<rparr>) f)))
             = Some s
            \<and> status s = Failed \<and> errorMessage s = Some msg"
    using assms(1)
    by (rule getAll_present_update [where now = now and st = Failed and t' = t'
          and m = "Some \<lparr>proposalId_m = a, txHash_m = b, errorMessage_m = Some msg\<rparr>"])
       (simp add: applyStatus_errorMessage assms(2))
next
  assume h: "ident suggestion = i \<and> propose (calculateProposalAllocation 1 c) = None"
  with assms(1) process_success [of suggestion t f propose c now t2 t']
  show "fst (processQueuedSuggestion now t2 c propose suggestion f) = Inr ()"
    and "i \<notin> ident ` set (getAllSuggestions t'
                   (snd (processQueuedSuggestion now t2 c propose suggestion f)))"
    by simp_all
next
  assume h: "ident suggestion = i \<and> propose (calculateProposalAllocation 1 c) = Some (Error msg)"
  with assms process_failure [of suggestion t f propose c msg now t2 t']
  show "fst (processQueuedSuggestion now t2 c propose suggestion f) = Inl (Error msg)"
    and "\<exists>s. find (\<lambda>s. ident s = i)
                    (getAllSuggestions t'
                       (snd (processQueuedSuggestion now t2 c propose suggestion f))) = Some s
                \<and> status s = Failed \<and> errorMessage s = Some msg"
    by simp_all
qed


text \<open>
  In \<open>store1\<close>: \<^verbatim>\<open>s1\<close> is there; a successful run removes it and a run that
  meets the error \<^verbatim>\<open>boom\<close> leaves it failed.
\<close>

theorem completed_kept_deleted_removed_failed_kept_witness:
  "''s1'' \<in> ident ` set (getAllSuggestions 0 store1)
   \<and> fst (processQueuedSuggestion 1 2 chain1 (\<lambda>amount. None) (candidate\<lparr>ident := ''s1''\<rparr>) store1)
       = Inr ()
   \<and> ''s1'' \<notin> ident ` set (getAllSuggestions 3
         (snd (processQueuedSuggestion 1 2 chain1 (\<lambda>amount. None) (candidate\<lparr>ident := ''s1''\<rparr>) store1)))
   \<and> fst (processQueuedSuggestion 1 2 chain1 (\<lambda>amount. Some (Error ''boom''))
             (candidate\<lparr>ident := ''s1''\<rparr>) store1)
       = Inl (Error ''boom'')"
  using completed_kept_deleted_removed_failed_kept
          [where i = "''s1''" and t = 0 and f = store1 and msg = "''boom''" and t' = 3 and now = 1
             and ?t2.0 = 2 and c = chain1 and suggestion = "candidate\<lparr>ident := ''s1''\<rparr>"
             and propose = "\<lambda>amount. None"]
        completed_kept_deleted_removed_failed_kept
          [where i = "''s1''" and t = 0 and f = store1 and msg = "''boom''" and t' = 3 and now = 1
             and ?t2.0 = 2 and c = chain1 and suggestion = "candidate\<lparr>ident := ''s1''\<rparr>"
             and propose = "\<lambda>amount. Some (Error ''boom'')"]
  by (simp add: getAllSuggestions_def loadQueue_def store1_def candidate_def)

text \<open>
  C1 (as stated) fails: after \<^verbatim>\<open>updateSuggestionStatus\<close> has moved \<^verbatim>\<open>s1\<close> to
  \<^verbatim>\<open>completed\<close>, the record is still listed.
\<close>

theorem completed_record_still_listed:
  "fst (updateSuggestionStatus 5 ''s1'' Completed None store1) = Inr ()
   \<and> map ident (getAllSuggestions 6 (snd (updateSuggestionStatus 5 ''s1'' Completed None store1)))
       = [''s1'']
   \<and> map status (getAllSuggestions 6 (snd (updateSuggestionStatus 5 ''s1'' Completed None store1)))
       = [Completed]"
  by (simp add: updateSuggestionStatus_def getAllSuggestions_def loadQueue_def saveQueue_def
      store1_def candidate_def applyStatus_def truthy_def Let_def)

text \<open>
  C3 (as amended): every call of \<^verbatim>\<open>updateSuggestionStatus\<close> with \<^verbatim>\<open>completed\<close> or
  \<^verbatim>\<open>failed\<close> sets \<^verbatim>\<open>processedAt\<close> to the time of that call, whatever was
  there; a call with \<^verbatim>\<open>pending\<close> or \<^verbatim>\<open>processing\<close> leaves it as it was.
\<close>

theorem processedAt_set_by_every_terminal_update:
  assumes "find (\<lambda>s. ident s = i) (getAllSuggestions t f) = Some s"
  shows "\<exists>s'. find (\<lambda>s. ident s = i)
                 (getAllSuggestions t' (snd (updateSuggestionStatus now i st m f))) = Some s'
            \<and> processedAt s'
                = (if st = Completed \<or> st = Failed then Some now else processedAt s)"
  using getAll_after_update [OF assms, of now st m t']
  by (simp add: applyStatus_processedAt)

theorem processedAt_set_by_every_terminal_update_witness:
  "find (\<lambda>s. ident s = ''s1'') (getAllSuggestions 0 store1) = Some (candidate\<lparr>ident := ''s1''\<rparr>)
   \<and> (\<exists>s'. find (\<lambda>s. ident s = ''s1'')
                 (getAllSuggestions 0 (snd (updateSuggestionStatus 10 ''s1'' Failed None store1)))
               = Some s'
            \<and> processedAt s' = Some 10)"
proof -
  have h: "find (\<lambda>s. ident s = ''s1'') (getAllSuggestions 0 store1)
             = Some (candidate\<lparr>ident := ''s1''\<rparr>)"
    by (simp add: getAllSuggestions_def loadQueue_def store1_def)
  from processedAt_set_by_every_terminal_update [OF h, of 0 10 Failed None] h
  show ?thesis by simp
qed

text \<open>
  C3 (as stated) fails: the record fails at time 10 and \<^verbatim>\<open>processedAt\<close> is 10;
  the retry leaves it; the second failure, at time 30, replaces it by 30.
\<close>

theorem processedAt_overwritten_after_retry:
  "map processedAt (getAllSuggestions 0 failedOnce) = [Some 10]
   \<and> map processedAt (getAllSuggestions 0 retried) = [Some 10]
   \<and> map processedAt (getAllSuggestions 0 failedTwice) = [Some 30]"
  by (simp add: failedTwice_def retried_def failedOnce_def boom_def
      updateSuggestionStatus_def getAllSuggestions_def loadQueue_def saveQueue_def
      store1_def candidate_def applyStatus_def truthy_def Let_def)

subsection \<open>Identifiers and insertion order\<close>

lemma digitChar_cases:
  "digitChar d \<in> set ''0123456789''"
  unfolding digitChar_def by (rule nth_mem) simp

lemma below_ten:
  "k < (10::nat) \<Longrightarrow>
   k = 0 \<or> k = 1 \<or> k = 2 \<or> k = 3 \<or> k = 4 \<or> k = 5 \<or> k = 6 \<or> k = 7 \<or> k = 8 \<or> k = 9"
  by arith

lemma digitValue_digitChar: "digitValue (digitChar d) = Some (d mod 10)"
proof -
  have "d mod 10 < 10" by simp
  from below_ten [OF this] show ?thesis
    by (elim disjE) (simp_all add: digitChar_def digitValue_def)
qed

lemma natOfDigits_append:
  "natOfDigits acc (xs @ ys)
     = (case natOfDigits acc xs of None \<Rightarrow> None | Some a \<Rightarrow> natOfDigits a ys)"
  by (induction xs arbitrary: acc) (auto split: option.splits)

lemma natOfDigits_showNat: "natOfDigits 0 (showNat n) = Some n"
proof (induction n rule: showNat.induct)
  case (1 n)
  show ?case
  proof (cases "n < 10")
    case True
    then show ?thesis
      by (subst showNat.simps) (simp add: digitValue_digitChar)
  next
    case False
    with 1 have "natOfDigits 0 (showNat (n div 10)) = Some (n div 10)" by simp
    with False show ?thesis
      by (subst showNat.simps) (simp add: natOfDigits_append digitValue_digitChar)
  qed
qed

lemma showNat_inj: "showNat a = showNat b \<Longrightarrow> a = b"
proof -
  assume "showNat a = showNat b"
  then have "natOfDigits 0 (showNat a) = natOfDigits 0 (showNat b)"
    by (rule arg_cong)
  then show "a = b"
    by (simp only: natOfDigits_showNat option.inject)
qed

lemma showNat_digits: "set (showNat n) \<subseteq> set ''0123456789''"
proof (induction n rule: showNat.induct)
  case (1 n)
  show ?case
  proof (cases "n < 10")
    case True
    then show ?thesis
      using digitChar_cases [of n] by (subst showNat.simps) simp
  next
    case False
    with 1 have "set (showNat (n div 10)) \<subseteq> set ''0123456789''" by simp
    with False show ?thesis
      using digitChar_cases [of "n mod 10"] by (subst showNat.simps) simp
  qed
qed

lemma showNat_not_Nil: "showNat n \<noteq> []"
  by (subst showNat.simps) simp

lemma showNat_hd_not_minus: "hd (showNat n) \<noteq> CHR ''-''"
proof -
  have "hd (showNat n) \<in> set (showNat n)" using showNat_not_Nil by simp
  with showNat_digits [of n] have "hd (showNat n) \<in> set ''0123456789''" by blast
  then show ?thesis by auto
qed

lemma showInt_inj: "showInt a = showInt b \<Longrightarrow> a = b"
proof -
  assume eq: "showInt a = showInt b"
  show "a = b"
  proof (cases "a < 0")
    case True
    note a = True
    show ?thesis
    proof (cases "b < 0")
      case True
      with a eq have "showNat (nat (- a)) = showNat (nat (- b))" by (simp add: showInt_def)
      then have "nat (- a) = nat (- b)" by (rule showNat_inj)
      with a True show ?thesis by simp
    next
      case False
      with a eq have "CHR ''-'' # showNat (nat (- a)) = showNat (nat b)" by (simp add: showInt_def)
      then have "hd (showNat (nat b)) = CHR ''-''" by (metis list.sel(1))
      with showNat_hd_not_minus show ?thesis by blast
    qed
  next
    case False
    note a = False
    show ?thesis
    proof (cases "b < 0")
      case True
      with a eq have "showNat (nat a) = CHR ''-'' # showNat (nat (- b))" by (simp add: showInt_def)
      then have "hd (showNat (nat a)) = CHR ''-''" by (metis list.sel(1))
      with showNat_hd_not_minus show ?thesis by blast
    next
      case False
      with a eq have "showNat (nat a) = showNat (nat b)" by (simp add: showInt_def)
      then have "nat a = nat b" by (rule showNat_inj)
      with a False show ?thesis by simp
    qed
  qed
qed

lemma showInt_no_underscore: "CHR ''_'' \<notin> set (showInt i)"
  using showNat_digits [of "nat i"] showNat_digits [of "nat (- i)"]
  by (auto simp: showInt_def)

lemma newId_inj: "newId t1 r1 = newId t2 r2 \<Longrightarrow> t1 = t2 \<and> r1 = r2"
proof -
  assume "newId t1 r1 = newId t2 r2"
  then have eq: "showInt t1 @ CHR ''_'' # r1 = showInt t2 @ CHR ''_'' # r2"
    by (simp add: newId_def)
  have tw: "\<And>i r. takeWhile (\<lambda>c. c \<noteq> CHR ''_'') (showInt i @ CHR ''_'' # r) = showInt i"
    using showInt_no_underscore by (subst takeWhile_append2) auto
  from eq have "takeWhile (\<lambda>c. c \<noteq> CHR ''_'') (showInt t1 @ CHR ''_'' # r1)
      = takeWhile (\<lambda>c. c \<noteq> CHR ''_'') (showInt t2 @ CHR ''_'' # r2)" by simp
  then have s: "showInt t1 = showInt t2" by (simp only: tw)
  with eq have "r1 = r2" by simp
  with s show ?thesis by (simp add: showInt_inj)
qed

lemma find_filter_first:
  "(case filter P xs of [] \<Rightarrow> None | x # _ \<Rightarrow> Some x) = find P xs"
  by (induction xs) auto

lemma find_append_first:
  "find P (xs @ ys) = (case find P xs of Some x \<Rightarrow> Some x | None \<Rightarrow> find P ys)"
  by (induction xs) auto

lemma getNext_find:
  "getNextSuggestion t f = find (\<lambda>s. status s = Pending) (getAllSuggestions t f)"
  by (simp add: getNextSuggestion_def getPendingSuggestions_def getAllSuggestions_def
      find_filter_first)

lemma getAll_after_add:
  "getAllSuggestions t (snd (addSuggestionToQueue now rnd s f))
     = getAllSuggestions t f @ [fst (addSuggestionToQueue now rnd s f)]"
  by (cases f)
     (simp_all add: addSuggestionToQueue_def getAllSuggestions_def loadQueue_def saveQueue_def
        Let_def)

lemma added_record:
  "ident (fst (addSuggestionToQueue now rnd s f)) = newId now rnd
   \<and> status (fst (addSuggestionToQueue now rnd s f)) = Pending"
  by (simp add: addSuggestionToQueue_def Let_def)

lemma getAll_after_enqueueAll:
  "getAllSuggestions t (snd (enqueueAll ops f)) = getAllSuggestions t f @ fst (enqueueAll ops f)"
proof (induction ops arbitrary: f)
  case Nil
  show ?case by simp
next
  case (Cons op ops)
  obtain now rnd s where op: "op = (now, rnd, s)" by (cases op)
  obtain added f1 where a: "addSuggestionToQueue now rnd s f = (added, f1)"
    by (cases "addSuggestionToQueue now rnd s f")
  obtain others f2 where e: "enqueueAll ops f1 = (others, f2)"
    by (cases "enqueueAll ops f1")
  from Cons [of f1] e have "getAllSuggestions t f2 = getAllSuggestions t f1 @ others" by simp
  moreover from getAll_after_add [of t now rnd s f] a
  have "getAllSuggestions t f1 = getAllSuggestions t f @ [added]" by simp
  ultimately show ?case by (simp add: op a e)
qed

lemma enqueueAll_ids:
  "map ident (fst (enqueueAll ops f)) = map (\<lambda>(now, rnd, s). newId now rnd) ops"
proof (induction ops arbitrary: f)
  case Nil
  show ?case by simp
next
  case (Cons op ops)
  obtain now rnd s where op: "op = (now, rnd, s)" by (cases op)
  obtain added f1 where a: "addSuggestionToQueue now rnd s f = (added, f1)"
    by (cases "addSuggestionToQueue now rnd s f")
  obtain others f2 where e: "enqueueAll ops f1 = (others, f2)"
    by (cases "enqueueAll ops f1")
  from Cons [of f1] e have "map ident others = map (\<lambda>(now, rnd, s). newId now rnd) ops" by simp
  moreover from added_record [of now rnd s f] a have "ident added = newId now rnd" by simp
  ultimately show ?case by (simp add: op a e)
qed

lemma enqueueAll_pending:
  "x \<in> set (fst (enqueueAll ops f)) \<Longrightarrow> status x = Pending"
proof (induction ops arbitrary: f)
  case Nil
  then show ?case by simp
next
  case (Cons op ops)
  obtain now rnd s where op: "op = (now, rnd, s)" by (cases op)
  obtain added f1 where a: "addSuggestionToQueue now rnd s f = (added, f1)"
    by (cases "addSuggestionToQueue now rnd s f")
  obtain others f2 where e: "enqueueAll ops f1 = (others, f2)"
    by (cases "enqueueAll ops f1")
  from added_record [of now rnd s f] a have "status added = Pending" by simp
  moreover from Cons.IH [of f1] e have "x \<in> set others \<Longrightarrow> status x = Pending" by simp
  ultimately show ?case using Cons.prems by (auto simp add: op a e)
qed

text \<open>
  Each enqueue appends its record, so the list is in insertion order, and
  \<^verbatim>\<open>getNextSuggestion\<close> returns the first pending record of the list: after a
  run of enqueues, what it returned before the run if there was one, else the
  first record of the run. It returns nothing exactly when no record is
  pending.
\<close>

lemma enqueue_fifo:
  "getAllSuggestions t (snd (enqueueAll ops f)) = getAllSuggestions t f @ fst (enqueueAll ops f)
   \<and> getNextSuggestion t f = find (\<lambda>s. status s = Pending) (getAllSuggestions t f)
   \<and> getNextSuggestion t (snd (enqueueAll ops f))
       = (case getNextSuggestion t f of
            Some x \<Rightarrow> Some x
          | None \<Rightarrow> (case fst (enqueueAll ops f) of [] \<Rightarrow> None | x # _ \<Rightarrow> Some x))
   \<and> (getNextSuggestion t f = None) = (\<forall>s \<in> set (getAllSuggestions t f). status s \<noteq> Pending)"
proof (intro conjI)
  show "getAllSuggestions t (snd (enqueueAll ops f)) = getAllSuggestions t f @ fst (enqueueAll ops f)"
    by (rule getAll_after_enqueueAll)
  show "getNextSuggestion t f = find (\<lambda>s. status s = Pending) (getAllSuggestions t f)"
    by (rule getNext_find)
  have "find (\<lambda>s. status s = Pending) (fst (enqueueAll ops f))
      = (case fst (enqueueAll ops f) of [] \<Rightarrow> None | x # _ \<Rightarrow> Some x)"
    using enqueueAll_pending [of _ ops f]
    by (cases "fst (enqueueAll ops f)") auto
  then show "getNextSuggestion t (snd (enqueueAll ops f))
        = (case getNextSuggestion t f of
             Some x \<Rightarrow> Some x
           | None \<Rightarrow> (case fst (enqueueAll ops f) of [] \<Rightarrow> None | x # _ \<Rightarrow> Some x))"
    by (simp add: getNext_find getAll_after_enqueueAll find_append_first split: option.splits)
  show "(getNextSuggestion t f = None) = (\<forall>s \<in> set (getAllSuggestions t f). status s \<noteq> Pending)"
    by (auto simp add: getNext_find find_None_iff)
qed

lemma showInt_clock: "showInt 1700000000000 = ''1700000000000''"
  by (simp add: showInt_def showNat.simps digitChar_def)

text \<open>
  C8: the identifier an enqueue returns is to be unique in the store
  (\<^verbatim>\<open>id: string; // Unique identifier for this suggestion\<close>). It is built from
  the clock and a random suffix and is not compared with the identifiers in
  the store: two enqueues on an empty store that read the same clock value,
  1700000000000, and draw the same suffix, \<^verbatim>\<open>ab\<close>, return the same identifier,
  and the store then lists two records under it. The order of insertion is
  kept all the same (\<open>enqueue_fifo\<close>).
\<close>

theorem same_clock_same_suffix_same_id:
  "ident (fst (addSuggestionToQueue 1700000000000 ''ab'' candidate NoFile))
       = ''suggestion_1700000000000_ab''
   \<and> ident (fst (addSuggestionToQueue 1700000000000 ''ab'' (candidate\<lparr>coinId := ''0xc2''\<rparr>)
                   (snd (addSuggestionToQueue 1700000000000 ''ab'' candidate NoFile))))
       = ''suggestion_1700000000000_ab''
   \<and> map ident
        (getAllSuggestions 1700000000001
           (snd (addSuggestionToQueue 1700000000000 ''ab'' (candidate\<lparr>coinId := ''0xc2''\<rparr>)
                   (snd (addSuggestionToQueue 1700000000000 ''ab'' candidate NoFile)))))
       = [''suggestion_1700000000000_ab'', ''suggestion_1700000000000_ab'']
   \<and> map coinId
        (getAllSuggestions 1700000000001
           (snd (addSuggestionToQueue 1700000000000 ''ab'' (candidate\<lparr>coinId := ''0xc2''\<rparr>)
                   (snd (addSuggestionToQueue 1700000000000 ''ab'' candidate NoFile)))))
       = [''0xc1'', ''0xc2'']"
  by (simp add: addSuggestionToQueue_def getAllSuggestions_def loadQueue_def saveQueue_def
      Let_def newId_def showInt_clock candidate_def)

section \<open>Properties of the proposal history\<close>










lemma partitionCoins_empty_history: "partitionCoins [] now addrs = (addrs, [])"
  by (induction addrs) auto

text \<open>
  C5: when the request is rejected, the status is not ok, the body is not
  JSON or the body has a truthy \<^verbatim>\<open>errors\<close> field, \<^verbatim>\<open>getRecentProposals\<close> returns the
  empty list, no match is found for any address, and
  \<^verbatim>\<open>filterRecentlyProposedCoins\<close> returns every input address as allowed and
  nothing as excluded.
\<close>

theorem failed_query_allows_everything:
  assumes "ask 100 = Rejected \<or> ask 100 = NotOk \<or> ask 100 = NotJson
           \<or> (\<exists>p. ask 100 = Body p \<and> errors p)"
  shows "getRecentProposals ask now windowMs = []
    \<and> wasRecentlyProposed ask now coinAddr windowMs = None
    \<and> filterRecentlyProposedCoins ask now later addrs windowMs = (addrs, [])"
proof -
  from assms have "getRecentProposals ask now windowMs = []"
    by (auto simp: getRecentProposals_def)
  then show ?thesis
    by (simp add: wasRecentlyProposed_def filterRecentlyProposedCoins_def
        partitionCoins_empty_history)
qed

text \<open>A subgraph that answers with an error list, asked about two coins.\<close>

theorem failed_query_allows_everything_witness:
  "(\<lambda>n. Body \<lparr>errors = True, proposals = Some [proposalA]\<rparr>) 100
      = Body \<lparr>errors = True, proposals = Some [proposalA]\<rparr>
   \<and> errors \<lparr>errors = True, proposals = Some [proposalA]\<rparr>
   \<and> getRecentProposals (\<lambda>n. Body \<lparr>errors = True, proposals = Some [proposalA]\<rparr>)
        8200000 86400000 = []
   \<and> filterRecentlyProposedCoins (\<lambda>n. Body \<lparr>errors = True, proposals = Some [proposalA]\<rparr>)
        8200000 8200000 [coinA, ''0x01''] 86400000 = ([coinA, ''0x01''], [])
   \<and> filterRecentlyProposedCoins (\<lambda>n. Rejected) 8200000 8200000 [coinA, ''0x01''] 86400000
        = ([coinA, ''0x01''], [])"
  using failed_query_allows_everything
          [of "\<lambda>n. Body \<lparr>errors = True, proposals = Some [proposalA]\<rparr>"
              8200000 86400000 coinA 8200000 "[coinA, ''0x01'']"]
        failed_query_allows_everything
          [of "\<lambda>n. Rejected" 8200000 86400000 coinA 8200000 "[coinA, ''0x01'']"]
  by simp

lemma scanProposals_sources:
  "scanProposals cutoff ps = Some es \<Longrightarrow>
   length es \<le> length ps
   \<and> proposalId_h ` set es \<subseteq> proposalId_p ` set ps
   \<and> (\<forall>e \<in> set es. \<exists>p \<in> set ps.
         extractCoinAddressFromDescription (description p) = Some (coinAddress e)
         \<and> proposalId_h e = proposalId_p p)"
proof (induction ps arbitrary: es)
  case Nil
  then show ?case by simp
next
  case (Cons p ps)
  show ?case
  proof (cases "scanProposals cutoff ps")
    case None
    with Cons.prems show ?thesis
      by (auto simp: Let_def split: option.splits if_splits)
  next
    case (Some rest)
    from Cons.IH [OF Some] have ih:
      "length rest \<le> length ps"
      "proposalId_h ` set rest \<subseteq> proposalId_p ` set ps"
      "\<forall>e \<in> set rest. \<exists>p \<in> set ps.
         extractCoinAddressFromDescription (description p) = Some (coinAddress e)
         \<and> proposalId_h e = proposalId_p p"
      by simp_all
    from Cons.prems Some consider "es = []" | "es = rest"
      | a t b where "es = historyEntry p a t b # rest"
          "extractCoinAddressFromDescription (description p) = Some a"
      by (auto simp: Let_def split: option.splits if_splits)
    then show ?thesis
    proof cases
      case 1
      then show ?thesis by simp
    next
      case 2
      with ih show ?thesis by auto
    next
      case 3
      with ih show ?thesis by (auto simp: historyEntry_def)
    qed
  qed
qed

lemma getRecentProposals_sources:
  "length (getRecentProposals (subgraphAnswer index) now windowMs) \<le> 100
   \<and> proposalId_h ` set (getRecentProposals (subgraphAnswer index) now windowMs)
       \<subseteq> proposalId_p ` set (take 100 index)
   \<and> (\<forall>e \<in> set (getRecentProposals (subgraphAnswer index) now windowMs).
         \<exists>p \<in> set (take 100 index).
           extractCoinAddressFromDescription (description p) = Some (coinAddress e)
           \<and> proposalId_h e = proposalId_p p)"
proof (cases "scanProposals (now - windowMs) (take 100 index)")
  case None
  then show ?thesis
    by (simp add: getRecentProposals_def subgraphAnswer_def)
next
  case (Some es)
  from scanProposals_sources [OF Some] Some show ?thesis
    by (simp add: getRecentProposals_def subgraphAnswer_def)
qed

text \<open>
  C10: the query asks for the first 100 proposals. Against an index that
  answers with its 100 newest, what lies behind them has no influence on
  \<^verbatim>\<open>getRecentProposals\<close>, \<^verbatim>\<open>wasRecentlyProposed\<close> and
  \<^verbatim>\<open>filterRecentlyProposedCoins\<close>, whatever the window: the result has at most
  100 entries and each comes from one of the 100 newest proposals.
\<close>

theorem only_hundred_newest_seen:
  assumes "100 \<le> length newest"
  shows "getRecentProposals (subgraphAnswer (newest @ older)) now windowMs
           = getRecentProposals (subgraphAnswer newest) now windowMs
    \<and> wasRecentlyProposed (subgraphAnswer (newest @ older)) now coinAddr windowMs
           = wasRecentlyProposed (subgraphAnswer newest) now coinAddr windowMs
    \<and> filterRecentlyProposedCoins (subgraphAnswer (newest @ older)) now later addrs windowMs
           = filterRecentlyProposedCoins (subgraphAnswer newest) now later addrs windowMs
    \<and> length (getRecentProposals (subgraphAnswer (newest @ older)) now windowMs) \<le> 100
    \<and> (\<forall>e \<in> set (getRecentProposals (subgraphAnswer (newest @ older)) now windowMs).
          \<exists>p \<in> set (take 100 newest).
            extractCoinAddressFromDescription (description p) = Some (coinAddress e)
            \<and> proposalId_h e = proposalId_p p)"
proof -
  from assms have "subgraphAnswer (newest @ older) 100 = subgraphAnswer newest 100"
    by (simp add: subgraphAnswer_def)
  then have same: "getRecentProposals (subgraphAnswer (newest @ older)) now windowMs
           = getRecentProposals (subgraphAnswer newest) now windowMs"
    by (simp add: getRecentProposals_def)
  with getRecentProposals_sources [of newest now windowMs] show ?thesis
    by (simp add: wasRecentlyProposed_def filterRecentlyProposedCoins_def)
qed

lemma lower_coinA:
  "toLowerCase coinA = ''0x50f88fe97f72cd3e75b9eb4f747f59bceba80d59''"
  by code_simp

lemma extract_proposalB:
  "extractCoinAddressFromDescription (description proposalB)
     = Some ''0x0000000000000000000000000000000000000002''"
  by code_simp

lemma coinA_seen_alone:
  "wasRecentlyProposed (subgraphAnswer [proposalA]) 8200000 coinA 86400000 = Some entryA"
  by code_simp

text \<open>
  One hundred copies of \<open>proposalB\<close> in front of \<open>proposalA\<close>, all created two
  hours ago: the coin of \<open>proposalA\<close> is found when \<open>proposalA\<close> is alone in the
  index, and not found behind the hundred.
\<close>

theorem only_hundred_newest_seen_witness:
  "100 \<le> length (replicate 100 proposalB)
   \<and> wasRecentlyProposed (subgraphAnswer [proposalA]) 8200000 coinA 86400000 = Some entryA
   \<and> wasRecentlyProposed (subgraphAnswer (replicate 100 proposalB @ [proposalA]))
        8200000 coinA 86400000 = None"
proof -
  let ?ans = "subgraphAnswer (replicate 100 proposalB @ [proposalA])"
  have len: "100 \<le> length (replicate 100 proposalB)" by simp
  note seen = only_hundred_newest_seen [OF len, of "[proposalA]" 8200000 86400000 coinA 0 "[]"]
  have "\<not> sameAddress coinA e" if "e \<in> set (getRecentProposals ?ans 8200000 86400000)" for e
  proof -
    from seen that obtain p where "p \<in> set (take 100 (replicate 100 proposalB))"
      and "extractCoinAddressFromDescription (description p) = Some (coinAddress e)"
      by blast
    then have "coinAddress e = ''0x0000000000000000000000000000000000000002''"
      by (simp add: extract_proposalB)
    then have "toLowerCase (coinAddress e) = ''0x0000000000000000000000000000000000000002''"
      by (simp add: toLowerCase_def lowerChar_def)
    then show ?thesis
      by (simp add: sameAddress_def lower_coinA)
  qed
  then have "find (sameAddress coinA) (getRecentProposals ?ans 8200000 86400000) = None"
    by (simp add: find_None_iff)
  with len coinA_seen_alone show ?thesis
    by (simp add: wasRecentlyProposed_def)
qed

section \<open>Properties of the allocation calculator\<close>

subsection \<open>Doubles: sign, and the values the code meets\<close>

lemma pow2_positive: "0 < pow2 e"
  by (simp add: pow2_def)

lemma roundHalfEven_nonneg: "0 \<le> x \<Longrightarrow> 0 \<le> roundHalfEven x"
  by (auto simp: roundHalfEven_def Let_def)

lemma doubleOfPositive_sign:
  "0 < x \<Longrightarrow> doubleOfPositive x = PosInf \<or> (\<exists>y. doubleOfPositive x = Num y \<and> 0 \<le> y)"
proof -
  assume "0 < x"
  then have "0 \<le> x / pow2 e" for e
    using pow2_positive [of e] by simp
  then have "0 \<le> roundHalfEven (x / pow2 e)" for e
    by (rule roundHalfEven_nonneg)
  then have "(0::rat) \<le> of_int (roundHalfEven (x / pow2 e)) * pow2 e" for e
    using pow2_positive [of e] by simp
  then show ?thesis
    by (simp add: doubleOfPositive_def Let_def)
qed

lemma double_nonpos:
  "x \<le> 0 \<Longrightarrow> double x = NegInf \<or> (\<exists>y. double x = Num y \<and> y \<le> 0)"
  using doubleOfPositive_sign [of "- x"]
  by (auto simp: double_def negate_def)

lemma double_nonneg:
  "0 \<le> x \<Longrightarrow> double x = PosInf \<or> (\<exists>y. double x = Num y \<and> 0 \<le> y)"
  using doubleOfPositive_sign [of x]
  by (auto simp: double_def)

lemma double_not_NaN: "double x \<noteq> NaN"
  using double_nonpos [of x] double_nonneg [of x] by (cases "x \<le> 0") auto

lemma overPositive_not_NaN: "y \<noteq> NaN \<Longrightarrow> overPositive y d \<noteq> NaN"
  by (cases y) (simp_all add: overPositive_def double_not_NaN)

lemma overPositive_nonpos:
  assumes "0 < d" and "y = NegInf \<or> (\<exists>a. y = Num a \<and> a \<le> 0)"
  shows "overPositive y d = NegInf \<or> (\<exists>a. overPositive y d = Num a \<and> a \<le> 0)"
proof (cases y)
  case (Num a)
  with assms have "a / d \<le> 0" by (simp add: divide_le_0_iff)
  from double_nonpos [OF this] Num show ?thesis by (simp add: overPositive_def)
qed (use assms in \<open>simp_all add: overPositive_def\<close>)

lemma double_minAllocation:
  "double minAllocation = Num (7378697629483821 / 73786976294838206464)"
  by code_simp

lemma double_maxAllocation:
  "double maxAllocation = Num (3602879701896397 / 36028797018963968)"
  by code_simp

text \<open>
  The clamp \<^verbatim>\<open>Math.max(minAllocation, Math.min(maxAllocation, y))\<close> of a number
  that is not \<^verbatim>\<open>NaN\<close> is a finite number between the two constants, and is the
  lower constant for a \<open>y\<close> that is not positive.
\<close>

lemma clamp_between:
  assumes "y \<noteq> NaN" and "lo \<le> hi"
  shows "\<exists>z. mathMax (Num lo) (mathMin (Num hi) y) = Num z \<and> lo \<le> z \<and> z \<le> hi"
  using assms by (cases y) (auto simp: mathMin_def mathMax_def)

lemma clamp_below:
  assumes "y = NegInf \<or> (\<exists>a. y = Num a \<and> a \<le> 0)" and "0 < lo" and "lo \<le> hi"
  shows "mathMax (Num lo) (mathMin (Num hi) y) = Num lo"
  using assms by (auto simp: mathMin_def mathMax_def)

lemma clamp_finite:
  assumes "y \<noteq> NaN"
  shows "\<exists>z. mathMax (double minAllocation) (mathMin (double maxAllocation) y) = Num z
    \<and> 7378697629483821 / 73786976294838206464 \<le> z
    \<and> z \<le> 3602879701896397 / 36028797018963968"
  unfolding double_minAllocation double_maxAllocation
  using assms by (rule clamp_between) simp

lemma clamp_nonpos:
  assumes "y = NegInf \<or> (\<exists>a. y = Num a \<and> a \<le> 0)"
  shows "mathMax (double minAllocation) (mathMin (double maxAllocation) y) = double minAllocation"
  unfolding double_minAllocation double_maxAllocation
  using assms by (rule clamp_below) simp_all

subsection \<open>The digits of \<^verbatim>\<open>toFixed\<close> read back\<close>

lemma fracDigits_length: "length (fracDigits f m) = f"
  by (induction f arbitrary: m) auto

lemma natOfDigits_fracDigits:
  "natOfDigits acc (fracDigits f m) = Some (acc * 10 ^ f + m mod 10 ^ f)"
proof (induction f arbitrary: m)
  case 0
  show ?case by simp
next
  case (Suc f)
  have "(acc * 10 ^ f + m div 10 mod 10 ^ f) * 10 + m mod 10 = acc * 10 ^ Suc f + m mod 10 ^ Suc f"
  proof -
    have "m mod 10 ^ Suc f = m mod 10 + 10 * (m div 10 mod 10 ^ f)"
      by (simp add: mod_mult2_eq)
    then show ?thesis by (simp add: algebra_simps)
  qed
  with Suc [of "m div 10"] show ?case
    by (simp add: natOfDigits_append digitValue_digitChar)
qed

lemma showNat_no_point: "CHR ''.'' \<notin> set (showNat n)"
  using showNat_digits [of n] by auto

lemma fixedDigits_shape:
  assumes "0 \<le> x" and "0 < f"
  shows "fixedDigits f x
    = showNat (nat \<lfloor>x * 10 ^ f + 1 / 2\<rfloor> div 10 ^ f)
      @ CHR ''.'' # fracDigits f (nat \<lfloor>x * 10 ^ f + 1 / 2\<rfloor> mod 10 ^ f)"
  using assms by (simp add: fixedDigits_def Let_def)

lemma decimalValue_fixedDigits:
  assumes "0 \<le> x" and "0 < f"
  shows "decimalValue (fixedDigits f x) = Some (of_nat (nat \<lfloor>x * 10 ^ f + 1 / 2\<rfloor>) / 10 ^ f)"
proof -
  define n where "n = nat \<lfloor>x * 10 ^ f + 1 / 2\<rfloor>"
  define whole where "whole = showNat (n div 10 ^ f)"
  define fraction where "fraction = fracDigits f (n mod 10 ^ f)"
  from fixedDigits_shape [OF assms] have shape: "fixedDigits f x = whole @ CHR ''.'' # fraction"
    by (simp add: n_def whole_def fraction_def)
  have tw: "takeWhile (\<lambda>c. c \<noteq> CHR ''.'') (whole @ CHR ''.'' # fraction) = whole"
    using showNat_no_point [of "n div 10 ^ f"]
    by (subst takeWhile_append2) (auto simp: whole_def)
  have dw: "dropWhile (\<lambda>c. c \<noteq> CHR ''.'') (whole @ CHR ''.'' # fraction) = CHR ''.'' # fraction"
    using showNat_no_point [of "n div 10 ^ f"]
    by (subst dropWhile_append2) (auto simp: whole_def)
  have w: "whole \<noteq> []" "natOfDigits 0 whole = Some (n div 10 ^ f)"
    by (simp_all add: whole_def showNat_not_Nil natOfDigits_showNat)
  have fr: "fraction \<noteq> []" "length fraction = f" "natOfDigits 0 fraction = Some (n mod 10 ^ f)"
    using \<open>0 < f\<close> fracDigits_length [of f "n mod 10 ^ f"]
    by (auto simp: fraction_def natOfDigits_fracDigits)
  have "(of_nat (n div 10 ^ f) :: rat) + of_nat (n mod 10 ^ f) / 10 ^ f = of_nat n / 10 ^ f"
  proof -
    have "(of_nat (n div 10 ^ f * 10 ^ f + n mod 10 ^ f) :: rat)
        = of_nat (n div 10 ^ f) * 10 ^ f + of_nat (n mod 10 ^ f)"
      by (simp only: of_nat_add of_nat_mult of_nat_power of_nat_numeral)
    then have e: "(of_nat n :: rat) = of_nat (n div 10 ^ f) * 10 ^ f + of_nat (n mod 10 ^ f)"
      by (simp only: div_mult_mod_eq)
    show ?thesis
      unfolding e by (simp add: add_divide_distrib)
  qed
  then show ?thesis
    unfolding shape decimalValue_def
    by (simp add: tw dw w fr Let_def n_def)
qed

text \<open>A string of \<^verbatim>\<open>toFixed(4)\<close> has four digits after the point: it is not \<^verbatim>\<open>0.01\<close>.\<close>

lemma fixedDigits_not_default: "0 \<le> x \<Longrightarrow> fixedDigits 4 x \<noteq> ''0.01''"
proof
  assume "0 \<le> x" and eq: "fixedDigits 4 x = ''0.01''"
  let ?n = "nat \<lfloor>x * 10 ^ 4 + 1 / 2\<rfloor>"
  from fixedDigits_shape [OF \<open>0 \<le> x\<close>, of 4]
  have "length (fixedDigits 4 x) = length (showNat (?n div 10 ^ 4)) + 5"
    by (simp add: fracDigits_length)
  moreover have "0 < length (showNat (?n div 10 ^ 4))"
    using showNat_not_Nil by simp
  ultimately have "5 < length (fixedDigits 4 x)" by linarith
  with eq show False by simp
qed

lemma rounded_within_bounds:
  assumes "7378697629483821 / 73786976294838206464 \<le> x"
    and "x \<le> 3602879701896397 / 36028797018963968"
  shows "minAllocation \<le> of_nat (nat \<lfloor>x * 10 ^ 4 + 1 / 2\<rfloor>) / 10 ^ 4
    \<and> of_nat (nat \<lfloor>x * 10 ^ 4 + 1 / 2\<rfloor>) / 10 ^ 4 \<le> maxAllocation"
proof -
  from assms(1) have lo: "1 \<le> \<lfloor>x * 10 ^ 4 + 1 / 2\<rfloor>"
    by (simp add: le_floor_iff)
  from assms(2) have hi: "\<lfloor>x * 10 ^ 4 + 1 / 2\<rfloor> \<le> 1000"
    by (simp add: floor_le_iff)
  from lo have n: "(of_nat (nat \<lfloor>x * 10 ^ 4 + 1 / 2\<rfloor>) :: rat) = of_int \<lfloor>x * 10 ^ 4 + 1 / 2\<rfloor>"
    by simp
  from lo have "(1::rat) \<le> of_int \<lfloor>x * 10 ^ 4 + 1 / 2\<rfloor>" by linarith
  moreover from hi have "(of_int \<lfloor>x * 10 ^ 4 + 1 / 2\<rfloor> :: rat) \<le> 1000" by linarith
  ultimately show ?thesis
    unfolding n by (simp add: minAllocation_def maxAllocation_def field_simps)
qed

lemma default_value: "decimalValue ''0.01'' = Some (1 / 100)"
  by code_simp

subsection \<open>The paths of \<^verbatim>\<open>calculateProposalAllocation\<close>\<close>

lemma allocation_default_paths:
  "DAO_TREASURY_ADDRESS c = None \<or> DAO_TREASURY_ADDRESS c = Some [] \<or> getTreasuryBalance c = None
     \<or> bigIntOfNumber (timesPositive (double allocationPercent) 100) = None
   \<Longrightarrow> calculateProposalAllocation allocationPercent c = ''0.01''"
  by (auto simp: calculateProposalAllocation_def Let_def split: option.splits)

lemma allocation_computed_path:
  assumes "DAO_TREASURY_ADDRESS c = Some a" and "a \<noteq> []"
    and "getTreasuryBalance c = Some B"
    and "bigIntOfNumber (timesPositive (double allocationPercent) 100) = Some k"
  shows "calculateProposalAllocation allocationPercent c
    = toFixed 4
        (mathMax (double minAllocation)
           (mathMin (double maxAllocation)
              (overPositive
                 (double (of_int (bigIntDiv ((B - getTotalActiveProposalValue c) * k) 10000)))
                 (10 ^ 18))))"
  using assms by (simp add: calculateProposalAllocation_def Let_def)

lemma allocation_computed_form:
  assumes "DAO_TREASURY_ADDRESS c = Some a" and "a \<noteq> []"
    and "getTreasuryBalance c = Some B"
    and "bigIntOfNumber (timesPositive (double allocationPercent) 100) = Some k"
  shows "\<exists>z. calculateProposalAllocation allocationPercent c = fixedDigits 4 z
    \<and> 7378697629483821 / 73786976294838206464 \<le> z
    \<and> z \<le> 3602879701896397 / 36028797018963968"
proof -
  let ?y = "overPositive
      (double (of_int (bigIntDiv ((B - getTotalActiveProposalValue c) * k) 10000))) (10 ^ 18)"
  have "?y \<noteq> NaN"
    by (rule overPositive_not_NaN) (rule double_not_NaN)
  from clamp_finite [OF this] obtain z where
    "mathMax (double minAllocation) (mathMin (double maxAllocation) ?y) = Num z"
    and "7378697629483821 / 73786976294838206464 \<le> z"
    and "z \<le> 3602879701896397 / 36028797018963968"
    by blast
  with allocation_computed_path [OF assms] show ?thesis
    by (auto simp: toFixed_def)
qed

text \<open>
  C6: on every path of \<^verbatim>\<open>calculateProposalAllocation\<close> (treasury address
  missing, balance query failing, percentage not convertible, and the computed
  path for any balance and any proposals) the string returned is a decimal
  numeral whose value lies between \<^verbatim>\<open>minAllocation\<close> and \<^verbatim>\<open>maxAllocation\<close>.
\<close>

theorem allocation_within_bounds:
  "\<exists>x. decimalValue (calculateProposalAllocation allocationPercent c) = Some x
       \<and> minAllocation \<le> x \<and> x \<le> maxAllocation"
proof (cases "DAO_TREASURY_ADDRESS c = None \<or> DAO_TREASURY_ADDRESS c = Some []
    \<or> getTreasuryBalance c = None
    \<or> bigIntOfNumber (timesPositive (double allocationPercent) 100) = None")
  case True
  then have "calculateProposalAllocation allocationPercent c = ''0.01''"
    by (rule allocation_default_paths)
  then show ?thesis
    by (intro exI [of _ "1 / 100"]) (simp add: default_value minAllocation_def maxAllocation_def)
next
  case False
  then obtain a B k where "DAO_TREASURY_ADDRESS c = Some a" "a \<noteq> []"
    "getTreasuryBalance c = Some B"
    "bigIntOfNumber (timesPositive (double allocationPercent) 100) = Some k"
    by auto
  from allocation_computed_form [OF this] obtain z where
    r: "calculateProposalAllocation allocationPercent c = fixedDigits 4 z"
    and b: "7378697629483821 / 73786976294838206464 \<le> z"
      "z \<le> 3602879701896397 / 36028797018963968"
    by blast
  from b(1) have "0 \<le> z" by simp
  from decimalValue_fixedDigits [OF this, of 4]
  have d: "decimalValue (fixedDigits 4 z) = Some (of_nat (nat \<lfloor>z * 10 ^ 4 + 1 / 2\<rfloor>) / 10 ^ 4)"
    by simp
  from d rounded_within_bounds [OF b] show ?thesis
    unfolding r by blast
qed

lemma toFixed_min: "toFixed 4 (double minAllocation) = ''0.0001''"
  by code_simp

lemma bigIntDiv_nonpos: "a \<le> 0 \<Longrightarrow> 0 < b \<Longrightarrow> bigIntDiv a b \<le> 0"
  by (simp add: bigIntDiv_def mult_le_0_iff sgn_if pos_imp_zdiv_nonneg_iff)

text \<open>
  C2 (as amended): \<^verbatim>\<open>calculateProposalAllocation\<close> returns the default string
  \<^verbatim>\<open>0.01\<close> exactly when the treasury address is missing or empty, the balance
  query throws, or the double \<^verbatim>\<open>allocationPercent * 100\<close> is not an integer, so
  that its conversion throws. On the other inputs a balance below the sum of
  the active proposals, with a percentage that is not negative, gives the
  minimum allocation \<^verbatim>\<open>0.0001\<close>: the negative amount is clamped.
\<close>

theorem negative_available_gives_minimum:
  "(calculateProposalAllocation allocationPercent c = ''0.01'')
     = (DAO_TREASURY_ADDRESS c = None \<or> DAO_TREASURY_ADDRESS c = Some []
        \<or> getTreasuryBalance c = None
        \<or> bigIntOfNumber (timesPositive (double allocationPercent) 100) = None)
   \<and> (DAO_TREASURY_ADDRESS c = Some a \<and> a \<noteq> []
        \<and> getTreasuryBalance c = Some B
        \<and> B - getTotalActiveProposalValue c < 0
        \<and> bigIntOfNumber (timesPositive (double allocationPercent) 100) = Some k \<and> 0 \<le> k
      \<longrightarrow> calculateProposalAllocation allocationPercent c = ''0.0001'')"
proof (intro conjI impI)
  show "(calculateProposalAllocation allocationPercent c = ''0.01'')
     = (DAO_TREASURY_ADDRESS c = None \<or> DAO_TREASURY_ADDRESS c = Some []
        \<or> getTreasuryBalance c = None
        \<or> bigIntOfNumber (timesPositive (double allocationPercent) 100) = None)"
  proof
    assume r: "calculateProposalAllocation allocationPercent c = ''0.01''"
    show "DAO_TREASURY_ADDRESS c = None \<or> DAO_TREASURY_ADDRESS c = Some []
        \<or> getTreasuryBalance c = None
        \<or> bigIntOfNumber (timesPositive (double allocationPercent) 100) = None"
    proof (rule ccontr)
      assume "\<not> ?thesis"
      then obtain a' B' k' where "DAO_TREASURY_ADDRESS c = Some a'" "a' \<noteq> []"
        "getTreasuryBalance c = Some B'"
        "bigIntOfNumber (timesPositive (double allocationPercent) 100) = Some k'"
        by auto
      from allocation_computed_form [OF this] obtain z where
        "calculateProposalAllocation allocationPercent c = fixedDigits 4 z"
        and "7378697629483821 / 73786976294838206464 \<le> z"
        by blast
      with r have "fixedDigits 4 z = ''0.01''" and "0 \<le> z" by simp_all
      with fixedDigits_not_default [of z] show False by simp
    qed
  next
    assume "DAO_TREASURY_ADDRESS c = None \<or> DAO_TREASURY_ADDRESS c = Some []
        \<or> getTreasuryBalance c = None
        \<or> bigIntOfNumber (timesPositive (double allocationPercent) 100) = None"
    then show "calculateProposalAllocation allocationPercent c = ''0.01''"
      by (rule allocation_default_paths)
  qed
next
  assume h: "DAO_TREASURY_ADDRESS c = Some a \<and> a \<noteq> []
        \<and> getTreasuryBalance c = Some B
        \<and> B - getTotalActiveProposalValue c < 0
        \<and> bigIntOfNumber (timesPositive (double allocationPercent) 100) = Some k \<and> 0 \<le> k"
  then have "(B - getTotalActiveProposalValue c) * k \<le> 0"
    by (simp add: mult_le_0_iff)
  then have "bigIntDiv ((B - getTotalActiveProposalValue c) * k) 10000 \<le> 0"
    by (rule bigIntDiv_nonpos) simp
  then have "(of_int (bigIntDiv ((B - getTotalActiveProposalValue c) * k) 10000) :: rat) \<le> 0"
    by simp
  from double_nonpos [OF this]
  have "overPositive (double (of_int (bigIntDiv ((B - getTotalActiveProposalValue c) * k) 10000)))
          (10 ^ 18) = NegInf
     \<or> (\<exists>y. overPositive (double (of_int (bigIntDiv ((B - getTotalActiveProposalValue c) * k) 10000)))
          (10 ^ 18) = Num y \<and> y \<le> 0)"
    by (intro overPositive_nonpos) simp_all
  from clamp_nonpos [OF this] h
  show "calculateProposalAllocation allocationPercent c = ''0.0001''"
    by (simp add: allocation_computed_path toFixed_min)
qed

lemma percent_one: "bigIntOfNumber (timesPositive (double 1) 100) = Some 100"
  by code_simp

lemma product_seven_hundredths:
  "timesPositive (double (7 / 100)) 100 = Num (7881299347898369 / 1125899906842624)"
  by code_simp

lemma percent_seven_hundredths:
  "bigIntOfNumber (timesPositive (double (7 / 100)) 100) = None"
  by code_simp

text \<open>
  In \<open>chain1\<close> the treasury holds nothing against one ether committed. One
  percent gives the minimum. The percentage \<^verbatim>\<open>0.07\<close> gives the default: the
  double product \<^verbatim>\<open>0.07 * 100\<close> is \<^verbatim>\<open>7.000000000000001\<close>, which is not an integer.
\<close>

theorem negative_available_gives_minimum_witness:
  "DAO_TREASURY_ADDRESS chain1 = Some ''0xT'' \<and> ''0xT'' \<noteq> []
   \<and> getTreasuryBalance chain1 = Some 0
   \<and> 0 - getTotalActiveProposalValue chain1 < 0
   \<and> bigIntOfNumber (timesPositive (double 1) 100) = Some 100 \<and> (0::int) \<le> 100
   \<and> calculateProposalAllocation 1 chain1 = ''0.0001''
   \<and> bigIntOfNumber (timesPositive (double (7 / 100)) 100) = None
   \<and> calculateProposalAllocation (7 / 100) chain1 = ''0.01''"
proof -
  have h: "DAO_TREASURY_ADDRESS chain1 = Some ''0xT''" "''0xT'' \<noteq> []"
    "getTreasuryBalance chain1 = Some 0"
    by (simp_all add: chain1_def)
  have s: "0 - getTotalActiveProposalValue chain1 < 0"
    by (simp add: chain1_def getTotalActiveProposalValue_def addActiveValue_def)
  note one = negative_available_gives_minimum
      [where allocationPercent = 1 and c = chain1 and a = "''0xT''" and B = 0 and k = 100]
  note seven = negative_available_gives_minimum
      [where allocationPercent = "7 / 100" and c = chain1]
  from one h s percent_one have "calculateProposalAllocation 1 chain1 = ''0.0001''"
    by simp
  moreover from seven percent_seven_hundredths
  have "calculateProposalAllocation (7 / 100) chain1 = ''0.01''"
    by simp
  ultimately show ?thesis
    using h s percent_one percent_seven_hundredths by simp
qed

text \<open>
  C2 (as stated) fails: in \<open>chain1\<close> the balance less the active proposals is
  negative, and the amount returned is \<^verbatim>\<open>0.0001\<close>, not the default \<^verbatim>\<open>0.01\<close>.
\<close>

theorem negative_available_not_default:
  "getTreasuryBalance chain1 = Some 0
   \<and> getTotalActiveProposalValue chain1 = 1000000000000000000
   \<and> calculateProposalAllocation 1 chain1 = ''0.0001''
   \<and> calculateProposalAllocation 1 chain1 \<noteq> ''0.01''"
  by code_simp

text \<open>
  A decimal tie: 0.015 ether available at one percent is 0.00015 ether; the
  double nearest to it is below the tie and \<^verbatim>\<open>toFixed(4)\<close> prints \<^verbatim>\<open>0.0001\<close>.
\<close>

lemma allocation_at_decimal_tie:
  "calculateProposalAllocation 1
     (chain1\<lparr>getTreasuryBalance := Some 15000000000000000, proposalsReply := Reply []\<rparr>)
   = ''0.0001''"
  by code_simp

section \<open>Properties of the analysis gate\<close>














text \<open>
  A decimal tie in the age: 0.15 hours. The double nearest to 0.15 is below
  the tie, and \<^verbatim>\<open>toFixed(1)\<close> prints \<^verbatim>\<open>0.1\<close>.
\<close>

lemma hours_at_decimal_tie: "toFixed 1 (hoursBetween 540000 0) = ''0.1''"
  by code_simp


end
